theory Spec2Isabelle
  imports Complex_Main "HOL-Library.AList" "HOL-Library.Multiset"
begin

section \<open>Shared data model (types.ts)\<close>

text \<open>
  The union types of \<^verbatim>\<open>types.ts\<close> are datatypes; each constructor stands for one
  string literal of the source: \<^verbatim>\<open>'9:16' | '16:9'\<close>, \<^verbatim>\<open>'Nano Banana' | 'Nano Banana Pro'\<close>
  and so on.
\<close>

datatype AspectRatio = R9_16 | R16_9

datatype ImageGenModel = Nano_Banana | Nano_Banana_Pro

datatype VideoModel = VEO3 | Sora2

datatype VideoDuration = D8s | D10s | D15s

datatype InputType = IMAGE | TEXT

datatype AppState = UPLOAD | ANALYZING | STORYBOARD | EDITOR | HISTORY

text \<open>The string a template literal prints for an \<^typ>\<open>AspectRatio\<close>.\<close>

fun AspectRatio_text :: "AspectRatio \<Rightarrow> string" where
  "AspectRatio_text R9_16 = ''9:16''"
| "AspectRatio_text R16_9 = ''16:9''"

record GenerationOptions =
  model :: VideoModel
  duration :: VideoDuration
  imageModel :: ImageGenModel
  inputType :: InputType
  aspectRatio :: AspectRatio

record SceneBreakdown =
  subjects :: string
  characters :: string
  environmentLighting :: string
  visualAnchors :: "string list"

text \<open>The four string fields of \<^verbatim>\<open>emotionalArc\<close>, each prefixed with \<open>arc_\<close>.\<close>

record EmotionalArc =
  arc_setup :: string
  arc_build :: string
  arc_turn :: string
  arc_payoff :: string

record ThemeStory =
  theme_text :: string
  logline :: string
  emotionalArc :: EmotionalArc

record CinematicApproach =
  shotProgression :: string
  cameraMovement :: string
  lensExposure :: string
  lightColor :: string

text \<open>
  A keyframe. The field \<^verbatim>\<open>id\<close> is \<open>id_kf\<close> and \<^verbatim>\<open>duration\<close> is \<open>duration_kf\<close> here,
  since \<open>id\<close> and \<open>duration\<close> are taken. The schema of the service adapter declares
  the id an INTEGER.
\<close>

record Keyframe =
  id_kf :: int
  shotType :: string
  duration_kf :: string
  composition :: string
  action :: string
  dialogue :: string
  camera :: string
  lensDoF :: string
  lighting :: string
  sound :: string

text \<open>
  Modelled from the spec: the \<^verbatim>\<open>Headline\<close> type that the viewer imports from
  \<^verbatim>\<open>types.ts\<close> (two short strings for the thumbnail overlay); the variant of
  \<^verbatim>\<open>types.ts\<close> that declares it is not among the source files.
\<close>

record Headline =
  line1 :: string
  line2 :: string

text \<open>
  Modelled from the spec: the optional fields \<open>headline\<close> and \<open>aspectRatio_sd\<close>
  (\<^verbatim>\<open>aspectRatio\<close>) of the storyboard, which the richer variants of
  \<^verbatim>\<open>StoryboardData\<close> carry; the variant of \<^verbatim>\<open>types.ts\<close> that declares them is not
  among the source files. The other fields, \<^verbatim>\<open>sourceScript\<close>, \<^verbatim>\<open>breakdown\<close>,
  \<^verbatim>\<open>theme\<close>, \<^verbatim>\<open>approach\<close> and \<^verbatim>\<open>keyframes\<close>, are those of \<^verbatim>\<open>types.ts\<close>. The
  record is extensible, so whatever further fields a variant carries (the audition
  package) live in its \<open>more\<close> part.
\<close>

record StoryboardData =
  sourceScript :: "string option"
  aspectRatio_sd :: "string option"
  headline :: "Headline option"
  breakdown :: SceneBreakdown
  theme :: ThemeStory
  approach :: CinematicApproach
  keyframes :: "Keyframe list"


section \<open>Storyboard viewer: editing a dialogue\<close>

text \<open>
  \<^verbatim>\<open>handleDialogueChange(id, newDialogue)\<close> passes React the updater
  \<^verbatim>\<open>prev => ({...prev, keyframes: prev.keyframes.map(kf =>
      kf.id === id ? {...kf, dialogue: newDialogue} : kf)})\<close>.
  The function below is that updater; \<open>prev\<close> is the editable storyboard.
\<close>

definition handleDialogueChange ::
  "int \<Rightarrow> string \<Rightarrow> 'a StoryboardData_scheme \<Rightarrow> 'a StoryboardData_scheme" where
  "handleDialogueChange i newDialogue prev =
     prev\<lparr>keyframes :=
       map (\<lambda>kf. if id_kf kf = i then kf\<lparr>dialogue := newDialogue\<rparr> else kf) (keyframes prev)\<rparr>"


section \<open>Storyboard viewer: geometry of the master board\<close>

text \<open>
  The first lines of \<^verbatim>\<open>downloadMasterBoard\<close> fix the grid:
  \<^verbatim>\<open>
  const isHorizontal = aspectRatio === '16:9';
  const cols = isHorizontal ? 2 : 3;
  const cellWidth = isHorizontal ? 640 : 360;
  const cellHeight = isHorizontal ? 360 : 640;
  const headerHeight = 280;
  const rows = Math.ceil(editableData.keyframes.length / cols);
  canvas.width = cols * cellWidth;
  canvas.height = headerHeight + (rows * cellHeight);
  \<close>
  The quotient \<^verbatim>\<open>length / cols\<close> is a double; for every list length a browser can hold
  it is the exact quotient rounded to 53 bits and its ceiling is the ceiling of the
  exact quotient, which is what \<open>rows\<close> computes. This is the viewer with the
  headline editor; the later variant of the viewer in the same file has the same
  lines with a header of 240.
\<close>

record board =
  cols :: nat
  cellWidth :: nat
  cellHeight :: nat
  headerHeight :: nat
  rows :: nat
  canvas_width :: nat
  canvas_height :: nat

definition isHorizontal :: "AspectRatio \<Rightarrow> bool" where
  "isHorizontal ar = (ar = R16_9)"

definition masterBoardLayout :: "AspectRatio \<Rightarrow> nat \<Rightarrow> board" where
  "masterBoardLayout ar n =
     (let c = (if isHorizontal ar then 2 else 3);
          cw = (if isHorizontal ar then 640 else 360);
          ch = (if isHorizontal ar then 360 else 640);
          hh = 280;
          r = nat \<lceil>real n / real c\<rceil>
      in \<lparr>cols = c, cellWidth = cw, cellHeight = ch, headerHeight = hh, rows = r,
          canvas_width = c * cw, canvas_height = hh + r * ch\<rparr>)"

text \<open>
  The top-left corner of the cell of the keyframe at index \<open>i\<close>:
  \<^verbatim>\<open>col = i % cols; row = Math.floor(i / cols); x = col * cellWidth;
  y = headerHeight + row * cellHeight\<close>.
\<close>

definition cellOrigin :: "board \<Rightarrow> nat \<Rightarrow> nat \<times> nat" where
  "cellOrigin b i = ((i mod cols b) * cellWidth b, headerHeight b + (i div cols b) * cellHeight b)"


section \<open>Storyboard viewer: cover-fit of an image into its cell\<close>

text \<open>
  Inside the loop of \<^verbatim>\<open>downloadMasterBoard\<close>:
  \<^verbatim>\<open>
  const imgRatio = img.width / img.height;
  const targetRatio = cellWidth / cellHeight;
  if (imgRatio > targetRatio) {
     renderH = cellHeight; renderW = cellHeight * imgRatio;
     offsetX = (cellWidth - renderW) / 2; offsetY = 0;
  } else {
     renderW = cellWidth; renderH = cellWidth / imgRatio;
     offsetX = 0; offsetY = (cellHeight - renderH) / 2;
  }
  \<close>
  The numbers are doubles in the source and reals here. \<^verbatim>\<open>img.width\<close> and
  \<^verbatim>\<open>img.height\<close> are non-negative integers; when one of them is 0 (an image that
  failed to load: the wait before this code resolves on \<^verbatim>\<open>onerror\<close> too) the source
  computes with NaN or Infinity, no finite placement exists, and the model returns
  \<open>None\<close>. \<open>branch\<close> records which arm of the conditional ran.
\<close>

datatype fit_branch = FillHeight | FillWidth

record placement =
  branch :: fit_branch
  renderW :: real
  renderH :: real
  offsetX :: real
  offsetY :: real

definition coverFit :: "nat \<Rightarrow> nat \<Rightarrow> nat \<Rightarrow> nat \<Rightarrow> placement option" where
  "coverFit cw ch imgW imgH =
     (if imgW = 0 \<or> imgH = 0 then None
      else
        let imgRatio = real imgW / real imgH;
            targetRatio = real cw / real ch
        in if imgRatio > targetRatio
           then Some \<lparr>branch = FillHeight,
                      renderW = real ch * imgRatio, renderH = real ch,
                      offsetX = (real cw - real ch * imgRatio) / 2, offsetY = 0\<rparr>
           else Some \<lparr>branch = FillWidth,
                      renderW = real cw, renderH = real cw / imgRatio,
                      offsetX = 0, offsetY = (real ch - real cw / imgRatio) / 2\<rparr>)"


section \<open>JavaScript values at the boundary\<close>

text \<open>
  \<^verbatim>\<open>localStorage.getItem\<close> and \<^verbatim>\<open>process.env.API_KEY\<close> give a string or nothing
  (\<^verbatim>\<open>null\<close>, \<^verbatim>\<open>undefined\<close>). Such a value is truthy when it is a non-empty string.
  \<open>or_else a b\<close> is \<^verbatim>\<open>a || b\<close> on such values.
\<close>

definition truthy :: "string option \<Rightarrow> bool" where
  "truthy v = (case v of None \<Rightarrow> False | Some s \<Rightarrow> s \<noteq> [])"

definition or_else :: "string option \<Rightarrow> string option \<Rightarrow> string option" where
  "or_else a b = (if truthy a then a else b)"

text \<open>\<^verbatim>\<open>a || d\<close> where \<open>d\<close> is a string literal.\<close>

definition or_default :: "string option \<Rightarrow> string \<Rightarrow> string" where
  "or_default a d = (case a of None \<Rightarrow> d | Some s \<Rightarrow> if s = [] then d else s)"

text \<open>
  \<^verbatim>\<open>hay.includes(needle)\<close>: the needle occurs at some position of the string.
  Strings are sequences of UTF-8 bytes here and of UTF-16 units in the source; for
  the ASCII needles of the shell both give the same answer.
\<close>

fun includes_str :: "string \<Rightarrow> string \<Rightarrow> bool" where
  "includes_str [] needle = (needle = [])"
| "includes_str (c # cs) needle = (take (length needle) (c # cs) = needle \<or> includes_str cs needle)"

text \<open>
  What \<^verbatim>\<open>JSON.parse\<close> can return. An object is its list of own properties in
  insertion order. An array carries, next to its elements, the named properties
  that were assigned to it later (none after parsing).
\<close>

datatype jsval =
    JNull
  | JBool bool
  | JNum rat
  | JStr string
  | JArr "jsval list" "(string \<times> jsval) list"
  | JObj "(string \<times> jsval) list"

text \<open>Reading the property \<open>k\<close> (not an array index) of a value that was parsed.\<close>

fun get_prop :: "jsval \<Rightarrow> string \<Rightarrow> jsval option" where
  "get_prop (JObj kvs) k = map_of kvs k"
| "get_prop (JArr xs props) k = map_of props k"
| "get_prop v k = None"

text \<open>
  A thrown value. \<open>Error m\<close> is \<^verbatim>\<open>new Error(m)\<close> of the adapter itself;
  \<open>SyntaxError m\<close> is raised by \<^verbatim>\<open>JSON.parse\<close> and \<open>TypeError m\<close> by an
  assignment to a property of \<^verbatim>\<open>null\<close> or of a primitive in module (strict) code,
  both with a message that the engine chooses; \<open>Rejected m\<close> is whatever the
  client library or the file reader rejects with, \<open>m\<close> being its \<^verbatim>\<open>message\<close>
  property when it has one.
\<close>

datatype thrown =
    Error string
  | SyntaxError string
  | TypeError string
  | Rejected "string option"

fun message :: "thrown \<Rightarrow> string option" where
  "message (Error m) = Some m"
| "message (SyntaxError m) = Some m"
| "message (TypeError m) = Some m"
| "message (Rejected m) = m"

text \<open>
  The message of the error every operation of the adapter throws when no key is
  resolved, as UTF-8 bytes: the text \<^verbatim>\<open>API\<close>, a space, and a Korean sentence saying
  that the key is not configured.
\<close>

definition missing_key_message :: string where
  "missing_key_message =
     ''API '' @ [CHR 0xED, CHR 0x82, CHR 0xA4, CHR 0xEA, CHR 0xB0, CHR 0x80] @ '' '' @
     [CHR 0xEC, CHR 0x84, CHR 0xA4, CHR 0xEC, CHR 0xA0, CHR 0x95, CHR 0xEB, CHR 0x90, CHR 0x98,
      CHR 0xEC, CHR 0xA7, CHR 0x80] @ '' '' @
     [CHR 0xEC, CHR 0x95, CHR 0x8A, CHR 0xEC, CHR 0x95, CHR 0x98, CHR 0xEC, CHR 0x8A, CHR 0xB5,
      CHR 0xEB, CHR 0x8B, CHR 0x88, CHR 0xEB, CHR 0x8B, CHR 0xA4] @ ''.''"

definition MissingCredential :: thrown where
  "MissingCredential = Error missing_key_message"

text \<open>
  What the engine decides: the result of \<^verbatim>\<open>JSON.parse\<close> on a text (\<open>Inl m\<close>: a
  SyntaxError with message \<open>m\<close>) and the message of its TypeError.
\<close>

record runtime =
  JSON_parse :: "string \<Rightarrow> string + jsval"
  TypeError_message :: string


section \<open>Generative-AI service adapter (services/geminiService.ts)\<close>

text \<open>
  Browser storage and environment. \<open>cinescript_api_key\<close> is the entry of
  \<^verbatim>\<open>localStorage\<close> under \<^verbatim>\<open>LOCAL_KEY_NAME\<close>; \<open>cinescript_history_v2\<close> is the entry
  under \<^verbatim>\<open>STORAGE_KEY\<close>, a JSON text that is represented by the array it encodes.
  The history record keeps \<^verbatim>\<open>id\<close> as \<open>id_sv\<close>.
\<close>

record 'd SavedStoryboard =
  id_sv :: string
  timestamp :: int
  data :: 'd
  options :: GenerationOptions
  previewImage :: "string option"

record 'd storage =
  cinescript_api_key :: "string option"
  cinescript_history_v2 :: "'d SavedStoryboard list option"

text \<open>
  A \<^verbatim>\<open>File\<close>: its MIME type and what \<^verbatim>\<open>fileToGenerativePart\<close> resolves to, the
  base64 payload of its data URL, or rejects with.
\<close>

record File =
  file_type :: string
  file_base64 :: "thrown + string"

datatype input = File_input File | Text_input string

text \<open>
  Requests to the service. \<open>InlineData mimeType data\<close> and \<open>Text t\<close> are the
  parts \<^verbatim>\<open>{inlineData: {mimeType, data}}\<close> and \<^verbatim>\<open>{text: t}\<close>. \<open>DirectorPrompt ar\<close> stands for the long template literal
  of \<^verbatim>\<open>generateStoryboard\<close>, whose only variable part is \<^verbatim>\<open>options.aspectRatio\<close>.
  \<open>StoryboardConfig\<close> stands for the constant configuration of that call (JSON
  response type, \<^verbatim>\<open>storyboardSchema\<close>, temperature 0.4); \<open>ImageConfig ar size\<close> is
  \<^verbatim>\<open>{imageConfig: {aspectRatio, imageSize?}}\<close>.
\<close>

datatype part = InlineData string string | Text string | DirectorPrompt AspectRatio

datatype config = StoryboardConfig | ImageConfig AspectRatio "string option" | NoConfig

record request =
  model_name :: string
  parts :: "part list"
  config :: config

text \<open>
  Responses. \<open>response_text\<close> is \<^verbatim>\<open>response.text\<close>. A candidate is the list
  \<^verbatim>\<open>candidate.content.parts\<close>, which every candidate is taken to have; of a part
  only \<^verbatim>\<open>inlineData\<close> is read: its optional \<^verbatim>\<open>mimeType\<close> and its \<^verbatim>\<open>data\<close>.
\<close>

record response =
  response_text :: "string option"
  candidates :: "(string option \<times> string) option list list option"

type_synonym service = "request \<Rightarrow> thrown + response"

text \<open>What an operation does beyond returning, in order.\<close>

datatype event =
    Adapter_call string
  | Client_constructed string
  | Network_call request

definition getApiKey :: "'d storage \<Rightarrow> string option \<Rightarrow> string" where
  "getApiKey st env_API_KEY =
     (let savedKey = cinescript_api_key st
      in or_default (or_else savedKey env_API_KEY) [])"

text \<open>
  \<^verbatim>\<open>data.aspectRatio = options.aspectRatio\<close> on the parsed value: an object or an
  array takes the property (in place when it is there, at the end otherwise);
  \<^verbatim>\<open>null\<close> and primitives raise a TypeError in module code.
\<close>

fun assign_aspectRatio :: "runtime \<Rightarrow> jsval \<Rightarrow> AspectRatio \<Rightarrow> thrown + jsval" where
  "assign_aspectRatio rt (JObj kvs) ar =
     Inr (JObj (AList.update ''aspectRatio'' (JStr (AspectRatio_text ar)) kvs))"
| "assign_aspectRatio rt (JArr xs props) ar =
     Inr (JArr xs (AList.update ''aspectRatio'' (JStr (AspectRatio_text ar)) props))"
| "assign_aspectRatio rt v ar = Inl (TypeError (TypeError_message rt))"

definition generateStoryboard ::
  "runtime \<Rightarrow> 'd storage \<Rightarrow> string option \<Rightarrow> service \<Rightarrow> input \<Rightarrow> GenerationOptions
     \<Rightarrow> (thrown + jsval) \<times> event list" where
  "generateStoryboard rt st env_API_KEY ai input opts =
     (let apiKey = getApiKey st env_API_KEY in
      if apiKey = [] then (Inl MissingCredential, [])
      else
        let client = [Client_constructed apiKey];
            contentParts =
              (case input of
                 File_input f \<Rightarrow>
                   (if inputType opts = IMAGE
                    then map_sum id (\<lambda>base64Data. [InlineData (file_type f) base64Data])
                           (file_base64 f)
                    else Inr [])
               | Text_input s \<Rightarrow> Inr [Text (''Context: '' @ [CHR 0x22] @ s @ [CHR 0x22])])
        in case contentParts of
             Inl e \<Rightarrow> (Inl e, client)
           | Inr ps \<Rightarrow>
               let req = \<lparr>model_name = ''gemini-3-pro-preview'',
                          parts = ps @ [DirectorPrompt (aspectRatio opts)],
                          config = StoryboardConfig\<rparr>;
                   evs = client @ [Network_call req]
               in (case ai req of
                     Inl e \<Rightarrow> (Inl e, evs)
                   | Inr resp \<Rightarrow>
                       (case response_text resp of
                          None \<Rightarrow> (Inl (Error ''Failed to receive response from Gemini.''), evs)
                        | Some t \<Rightarrow>
                            if t = [] then (Inl (Error ''Failed to receive response from Gemini.''), evs)
                            else (case JSON_parse rt t of
                                    Inl m \<Rightarrow> (Inl (SyntaxError m), evs)
                                  | Inr v \<Rightarrow> (assign_aspectRatio rt v (aspectRatio opts), evs)))))"

text \<open>
  The end of both image operations: the first part of the first candidate that has
  \<^verbatim>\<open>inlineData\<close> gives the data URL; \<open>failure\<close> is the message thrown otherwise.
\<close>

fun first_inline :: "(string option \<times> string) option list \<Rightarrow> string option" where
  "first_inline [] = None"
| "first_inline (None # ps) = first_inline ps"
| "first_inline (Some (mimeType, d) # ps) =
     Some (''data:'' @ or_default mimeType ''image/png'' @ '';base64,'' @ d)"

definition extract_image :: "string \<Rightarrow> response \<Rightarrow> thrown + string" where
  "extract_image failure resp =
     (case candidates resp of
        None \<Rightarrow> Inl (Error failure)
      | Some [] \<Rightarrow> Inl (Error failure)
      | Some (candidate # _) \<Rightarrow>
          (case first_inline candidate of
             Some url \<Rightarrow> Inr url
           | None \<Rightarrow> Inl (Error failure)))"

definition generateKeyframeImage ::
  "'d storage \<Rightarrow> string option \<Rightarrow> service \<Rightarrow> string \<Rightarrow> File option \<Rightarrow> ImageGenModel
     \<Rightarrow> AspectRatio \<Rightarrow> string option \<Rightarrow> (thrown + string) \<times> event list" where
  "generateKeyframeImage st env_API_KEY ai prompt originalFile modelType ar characterContext =
     (let apiKey = getApiKey st env_API_KEY in
      if apiKey = [] then (Inl MissingCredential, [])
      else
        let client = [Client_constructed apiKey];
            modelName = (if modelType = Nano_Banana_Pro then ''gemini-3-pro-image-preview''
                         else ''gemini-2.5-flash-image'');
            fullPrompt = ''Cinematic shot ('' @ AspectRatio_text ar
                @ ''). Detailed South Korean characters. ''
                @ (case characterContext of
                     None \<Rightarrow> []
                   | Some c \<Rightarrow> if c = [] then [] else ''Features: '' @ c @ ''.'')
                @ '' '' @ prompt @ '' 8k, photorealistic.'';
            ps = (case originalFile of
                    None \<Rightarrow> Inr [Text fullPrompt]
                  | Some f \<Rightarrow>
                      map_sum id (\<lambda>base64Data. [InlineData (file_type f) base64Data, Text fullPrompt])
                        (file_base64 f))
        in case ps of
             Inl e \<Rightarrow> (Inl e, client)
           | Inr ps \<Rightarrow>
               let req = \<lparr>model_name = modelName, parts = ps,
                          config = ImageConfig ar
                            (if modelType = Nano_Banana_Pro then Some ''1K'' else None)\<rparr>;
                   evs = client @ [Network_call req]
               in (case ai req of
                     Inl e \<Rightarrow> (Inl e, evs)
                   | Inr resp \<Rightarrow> (extract_image ''Failed to generate image.'' resp, evs)))"

definition editImageWithPrompt ::
  "'d storage \<Rightarrow> string option \<Rightarrow> service \<Rightarrow> File \<Rightarrow> string
     \<Rightarrow> (thrown + string) \<times> event list" where
  "editImageWithPrompt st env_API_KEY ai originalFile prompt =
     (let apiKey = getApiKey st env_API_KEY in
      if apiKey = [] then (Inl MissingCredential, [])
      else
        let client = [Client_constructed apiKey]
        in case file_base64 originalFile of
             Inl e \<Rightarrow> (Inl e, client)
           | Inr base64Data \<Rightarrow>
               let req = \<lparr>model_name = ''gemini-2.5-flash-image'',
                          parts = [InlineData (file_type originalFile) base64Data,
                                   Text (prompt @ ''. Cinematic style, South Korean actors.'')],
                          config = NoConfig\<rparr>;
                   evs = client @ [Network_call req]
               in (case ai req of
                     Inl e \<Rightarrow> (Inl e, evs)
                   | Inr resp \<Rightarrow> (extract_image ''Editing failed.'' resp, evs)))"


section \<open>Application shell (App.tsx)\<close>

text \<open>
  The texts the shell shows inline are Korean sentences; each constructor stands for
  one of them: \<open>Msg_no_key\<close> (no key is configured, enter one in the settings),
  \<open>Msg_generation_failed\<close> (an error occurred while generating the storyboard),
  \<open>Msg_key_rejected\<close> (authentication of the key failed), \<open>Msg_invalid_format\<close>
  (the AI produced no valid data format) and \<open>Msg_invalid_project\<close> (invalid project
  or wrong key).
\<close>

datatype ui_message =
    Msg_no_key
  | Msg_generation_failed
  | Msg_key_rejected
  | Msg_invalid_format
  | Msg_invalid_project

text \<open>The state of the \<^verbatim>\<open>App\<close> component, one field for each \<^verbatim>\<open>useState\<close>.\<close>

record 'd shell =
  appState :: AppState
  selectedImage :: "File option"
  previewImageData :: "string option"
  selectedText :: string
  storyboardData :: "'d option"
  error :: "ui_message option"
  selectedOptions :: "GenerationOptions option"
  history :: "'d SavedStoryboard list"
  hasKey :: bool
  isSettingsOpen :: bool

text \<open>Decimal digits of a natural number, for \<^verbatim>\<open>Date.now().toString()\<close>.\<close>

fun decimal :: "nat \<Rightarrow> string" where
  "decimal n = (if n < 10 then [char_of (48 + n)] else decimal (n div 10) @ [char_of (48 + n mod 10)])"

declare decimal.simps [simp del]

text \<open>
  \<^verbatim>\<open>saveToHistory(data, options, imageFile)\<close>. A failed read of the preview image
  is caught and leaves \<^verbatim>\<open>previewImage\<close> undefined. \<open>now_id\<close> and \<open>now_ts\<close> are
  the two readings of \<^verbatim>\<open>Date.now()\<close>. \<^verbatim>\<open>history\<close> is the list of the render that
  started the generation.
\<close>

definition saveToHistory ::
  "nat \<Rightarrow> nat \<Rightarrow> 'd \<Rightarrow> GenerationOptions \<Rightarrow> File option \<Rightarrow> 'd shell \<times> 'd storage
     \<Rightarrow> 'd shell \<times> 'd storage" where
  "saveToHistory now_id now_ts d opts imageFile = (\<lambda>(sh, st).
     let base64Image =
           (case imageFile of
              None \<Rightarrow> None
            | Some f \<Rightarrow>
                (case file_base64 f of
                   Inl e \<Rightarrow> None
                 | Inr rawData \<Rightarrow> Some (''data:'' @ file_type f @ '';base64,'' @ rawData)));
         newItem = \<lparr>id_sv = decimal now_id, timestamp = int now_ts, data = d, options = opts,
                    previewImage = base64Image\<rparr>;
         updatedHistory = newItem # history sh
     in (sh\<lparr>history := updatedHistory\<rparr>, st\<lparr>cinescript_history_v2 := Some updatedHistory\<rparr>))"

definition deleteFromHistory :: "string \<Rightarrow> 'd shell \<times> 'd storage \<Rightarrow> 'd shell \<times> 'd storage" where
  "deleteFromHistory i = (\<lambda>(sh, st).
     let updated = filter (\<lambda>item. id_sv item \<noteq> i) (history sh)
     in (sh\<lparr>history := updated\<rparr>, st\<lparr>cinescript_history_v2 := Some updated\<rparr>))"

definition clearHistory :: "'d shell \<times> 'd storage \<Rightarrow> 'd shell \<times> 'd storage" where
  "clearHistory = (\<lambda>(sh, st). (sh\<lparr>history := []\<rparr>, st\<lparr>cinescript_history_v2 := None\<rparr>))"

text \<open>
  What the effect on mount reads back from storage: an absent entry leaves the
  initial empty list.
\<close>

definition loadHistory :: "'d storage \<Rightarrow> 'd SavedStoryboard list" where
  "loadHistory st = (case cinescript_history_v2 st of None \<Rightarrow> [] | Some parsed \<Rightarrow> parsed)"

text \<open>
  The \<^verbatim>\<open>catch\<close> block of \<^verbatim>\<open>handleGenerate\<close>: the message is chosen by what
  \<^verbatim>\<open>err.message\<close> includes (\<^verbatim>\<open>err.message?.includes(...)\<close> is falsy when there is
  no message).
\<close>

definition message_includes :: "thrown \<Rightarrow> string \<Rightarrow> bool" where
  "message_includes err needle = (case message err of None \<Rightarrow> False | Some m \<Rightarrow> includes_str m needle)"

definition handleGenerate_catch :: "thrown \<Rightarrow> 'd shell \<Rightarrow> 'd shell" where
  "handleGenerate_catch err sh =
     (let (msg, sh1) =
        (if message_includes err ''API key''
         then (Msg_key_rejected, sh\<lparr>isSettingsOpen := True\<rparr>)
         else if message_includes err ''JSON''
         then (Msg_invalid_format, sh)
         else if message_includes err ''Requested entity was not found''
         then (Msg_invalid_project, sh\<lparr>isSettingsOpen := True\<rparr>)
         else (Msg_generation_failed, sh))
      in sh1\<lparr>error := Some msg, appState := UPLOAD\<rparr>)"

text \<open>
  The state updates of \<^verbatim>\<open>handleGenerate\<close> between the credential guard and the
  \<^verbatim>\<open>try\<close> block: the state in which the shell awaits the adapter.
\<close>

definition handleGenerate_begin :: "input \<Rightarrow> GenerationOptions \<Rightarrow> 'd shell \<Rightarrow> 'd shell" where
  "handleGenerate_begin inp opts sh =
     (let sh1 = (case inp of
                   File_input f \<Rightarrow> sh\<lparr>selectedImage := Some f, selectedText := []\<rparr>
                 | Text_input s \<Rightarrow> sh\<lparr>selectedText := s, selectedImage := None\<rparr>)
      in sh1\<lparr>selectedOptions := Some opts, appState := ANALYZING, error := None\<rparr>)"

text \<open>
  \<^verbatim>\<open>handleGenerate(input, options)\<close>, run to its end: the new state of shell and
  storage and, in order, the effects at the adapter. The adapter returns parsed JSON,
  so the shell holds \<^typ>\<open>jsval\<close> as its storyboard data.
\<close>

definition handleGenerate ::
  "runtime \<Rightarrow> string option \<Rightarrow> service \<Rightarrow> nat \<Rightarrow> nat \<Rightarrow> input \<Rightarrow> GenerationOptions
     \<Rightarrow> jsval shell \<times> jsval storage \<Rightarrow> (jsval shell \<times> jsval storage) \<times> event list" where
  "handleGenerate rt env_API_KEY ai now_id now_ts inp opts = (\<lambda>(sh, st).
     let savedKey = cinescript_api_key st;
         envKey = env_API_KEY
     in if \<not> truthy savedKey \<and> \<not> truthy envKey
        then ((sh\<lparr>error := Some Msg_no_key, isSettingsOpen := True\<rparr>, st), [])
        else
          let sh2 = handleGenerate_begin inp opts sh;
              (result, evs) = generateStoryboard rt st env_API_KEY ai inp opts;
              trace = Adapter_call ''generateStoryboard'' # evs
          in (case result of
                Inr d \<Rightarrow>
                  (let (sh3, st3) =
                         saveToHistory now_id now_ts d opts
                           (case inp of File_input f \<Rightarrow> Some f | Text_input s \<Rightarrow> None)
                           (sh2\<lparr>storyboardData := Some d\<rparr>, st)
                   in ((sh3\<lparr>appState := STORYBOARD\<rparr>, st3), trace))
              | Inl err \<Rightarrow> ((handleGenerate_catch err sh2, st), trace)))"


section \<open>History list (components/HistoryList.tsx)\<close>

text \<open>
  The list renders \<^verbatim>\<open>items.sort((a, b) => b.timestamp - a.timestamp).map(...)\<close>.
  \<^verbatim>\<open>Array.prototype.sort\<close> is stable and sorts in place, and \<^verbatim>\<open>items\<close> is the very
  array the shell holds in \<^verbatim>\<open>history\<close>: rendering the history screen leaves the
  shell's list sorted. \<open>HistoryList_rows\<close> is the order of the rows,
  \<open>render_HistoryList\<close> the effect on the shell.
\<close>

definition HistoryList_rows :: "'d SavedStoryboard list \<Rightarrow> 'd SavedStoryboard list" where
  "HistoryList_rows items = sort_key (\<lambda>item. - timestamp item) items"

definition render_HistoryList :: "'d shell \<Rightarrow> 'd shell" where
  "render_HistoryList sh =
     (if appState sh = HISTORY then sh\<lparr>history := HistoryList_rows (history sh)\<rparr> else sh)"


section \<open>Storyboard viewer: generating visuals\<close>

text \<open>
  The state of the viewer that the generation of visuals touches: the editable
  storyboard, the image cache \<^verbatim>\<open>generatedImages\<close> and the busy flags
  \<^verbatim>\<open>loadingImages\<close>, both objects keyed by keyframe id, and the number of
  \<^verbatim>\<open>alert\<close> dialogs shown so far.
\<close>

record viewer =
  editableData :: StoryboardData
  generatedImages :: "int \<rightharpoonup> string"
  loadingImages :: "int \<rightharpoonup> bool"
  alerts :: nat

text \<open>
  \<^verbatim>\<open>generatedImages[id]\<close> and \<^verbatim>\<open>loadingImages[id]\<close> as conditions: an absent entry and
  an empty string are falsy.
\<close>

definition cached :: "(int \<rightharpoonup> string) \<Rightarrow> int \<Rightarrow> bool" where
  "cached images i = (case images i of None \<Rightarrow> False | Some url \<Rightarrow> url \<noteq> [])"

definition busy :: "(int \<rightharpoonup> bool) \<Rightarrow> int \<Rightarrow> bool" where
  "busy flags i = (case flags i of None \<Rightarrow> False | Some b \<Rightarrow> b)"

text \<open>
  A function of a React component reads the state of the render that created it.
  An asynchronous function that is suspended at an \<^verbatim>\<open>await\<close> goes on with those
  values, whatever has been rendered since; only the updater functions
  (\<^verbatim>\<open>setLoadingImages(prev => ...)\<close>) see the current state. \<open>closure\<close> holds what
  \<^verbatim>\<open>generateVisual\<close> and \<^verbatim>\<open>generateAllVisuals\<close> read that way.
\<close>

record closure =
  seen_generatedImages :: "int \<rightharpoonup> string"
  seen_loadingImages :: "int \<rightharpoonup> bool"
  seen_characters :: string

definition render :: "viewer \<Rightarrow> closure" where
  "render v = \<lparr>seen_generatedImages = generatedImages v,
               seen_loadingImages = loadingImages v,
               seen_characters = characters (breakdown (editableData v))\<rparr>"

text \<open>
  One call of \<^verbatim>\<open>generateKeyframeImage\<close> from the viewer: the keyframe id it is for
  and the arguments that vary (the image, the engine and the aspect ratio are props
  of the viewer).
\<close>

record image_call =
  call_id :: int
  call_prompt :: string
  call_characters :: string

datatype outcome = Resolved string | Failed

text \<open>
  The call that \<^verbatim>\<open>generateVisual(kf.id, kf.action, kf.composition, kf.lighting)\<close>
  makes: the prompt is the template literal of the source, the character context is
  \<^verbatim>\<open>editableData.breakdown.characters\<close> as the function sees it.
\<close>

definition visual_call :: "closure \<Rightarrow> Keyframe \<Rightarrow> image_call" where
  "visual_call cl kf =
     \<lparr>call_id = id_kf kf,
      call_prompt = ''Action: '' @ action kf @ ''. Composition: '' @ composition kf
                    @ ''. Lighting: '' @ lighting kf @ ''.'',
      call_characters = seen_characters cl\<rparr>"

text \<open>
  \<^verbatim>\<open>generateVisual(id, action, composition, lighting)\<close> up to its \<^verbatim>\<open>await\<close>: nothing
  when the flag it sees is set, else the flag is set and the adapter is called.
\<close>

definition generateVisual_begin ::
  "closure \<Rightarrow> Keyframe \<Rightarrow> viewer \<Rightarrow> viewer \<times> image_call option" where
  "generateVisual_begin cl kf v =
     (if busy (seen_loadingImages cl) (id_kf kf) then (v, None)
      else (v\<lparr>loadingImages := (loadingImages v)(id_kf kf \<mapsto> True)\<rparr>,
            Some (visual_call cl kf)))"

text \<open>
  \<^verbatim>\<open>generateVisual\<close> after its \<^verbatim>\<open>await\<close>: the image is cached, or the failure is
  reported by an alert; \<^verbatim>\<open>finally\<close> the flag is cleared.
\<close>

definition generateVisual_end :: "int \<Rightarrow> outcome \<Rightarrow> viewer \<Rightarrow> viewer" where
  "generateVisual_end i res v =
     (let v1 = (case res of
                  Resolved imageUrl \<Rightarrow> v\<lparr>generatedImages := (generatedImages v)(i \<mapsto> imageUrl)\<rparr>
                | Failed \<Rightarrow> v\<lparr>alerts := Suc (alerts v)\<rparr>)
      in v1\<lparr>loadingImages := (loadingImages v1)(i \<mapsto> False)\<rparr>)"

text \<open>
  The loop of \<^verbatim>\<open>generateAllVisuals\<close>, from the keyframes still to visit up to its
  next suspension: the call it awaits and the keyframes after it, or nothing when
  the loop has ended. A \<^verbatim>\<open>generateVisual\<close> that returns at once does not suspend
  the loop beyond the current task.
\<close>

fun generateAllVisuals_loop ::
  "closure \<Rightarrow> Keyframe list \<Rightarrow> viewer \<Rightarrow> viewer \<times> (image_call \<times> Keyframe list) option" where
  "generateAllVisuals_loop cl [] v = (v, None)"
| "generateAllVisuals_loop cl (kf # kfs) v =
     (if \<not> cached (seen_generatedImages cl) (id_kf kf)
      then (case generateVisual_begin cl kf v of
              (v1, None) \<Rightarrow> generateAllVisuals_loop cl kfs v1
            | (v1, Some c) \<Rightarrow> (v1, Some (c, kfs)))
      else generateAllVisuals_loop cl kfs v)"

text \<open>
  A suspended \<^verbatim>\<open>generateAllVisuals\<close>: its number, its closure and the keyframes
  after the one it awaits.
\<close>

record sweep =
  sweep_no :: nat
  sweep_closure :: closure
  sweep_rest :: "Keyframe list"

text \<open>
  The viewer with its asynchronous calls. \<open>outstanding\<close> are the adapter calls that
  have not settled, oldest first, each with the \<^verbatim>\<open>generateAllVisuals\<close> that awaits it
  (none for a click on one keyframe). \<open>journal\<close> lists every call issued and every
  call settled, tagged with the number of the sweep it belongs to.
\<close>

datatype entry = Issued "nat option" int | Settled "nat option" int

record session =
  view :: viewer
  outstanding :: "(image_call \<times> sweep option) list"
  journal :: "entry list"
  next_sweep :: nat

datatype user_event =
    Click_generateVisual Keyframe
  | Click_generateAllVisuals
  | Settle nat outcome

text \<open>Going on with a sweep after the start or after its awaited call has settled.\<close>

definition resume_sweep :: "sweep \<Rightarrow> session \<Rightarrow> session" where
  "resume_sweep sw s =
     (case generateAllVisuals_loop (sweep_closure sw) (sweep_rest sw) (view s) of
        (v1, None) \<Rightarrow> s\<lparr>view := v1\<rparr>
      | (v1, Some (c, kfs)) \<Rightarrow>
          s\<lparr>view := v1,
            outstanding := outstanding s @ [(c, Some (sw\<lparr>sweep_rest := kfs\<rparr>))],
            journal := journal s @ [Issued (Some (sweep_no sw)) (call_id c)]\<rparr>)"

text \<open>
  One event. A click runs the handler of the current render. \<open>Settle n res\<close> is the
  adapter settling the \<open>n\<close>-th outstanding call: its \<^verbatim>\<open>generateVisual\<close> finishes and
  the sweep that awaited it, if any, goes on.
\<close>

fun step :: "user_event \<Rightarrow> session \<Rightarrow> session" where
  "step (Click_generateVisual kf) s =
     (case generateVisual_begin (render (view s)) kf (view s) of
        (v1, None) \<Rightarrow> s\<lparr>view := v1\<rparr>
      | (v1, Some c) \<Rightarrow>
          s\<lparr>view := v1,
            outstanding := outstanding s @ [(c, None)],
            journal := journal s @ [Issued None (call_id c)]\<rparr>)"
| "step Click_generateAllVisuals s =
     resume_sweep
       \<lparr>sweep_no = next_sweep s, sweep_closure = render (view s),
        sweep_rest = keyframes (editableData (view s))\<rparr>
       (s\<lparr>next_sweep := Suc (next_sweep s)\<rparr>)"
| "step (Settle n res) s =
     (if n < length (outstanding s)
      then (case outstanding s ! n of
              (c, owner) \<Rightarrow>
                (let s1 = s\<lparr>view := generateVisual_end (call_id c) res (view s),
                            outstanding := take n (outstanding s) @ drop (Suc n) (outstanding s),
                            journal := journal s @ [Settled (map_option sweep_no owner) (call_id c)]\<rparr>
                 in (case owner of None \<Rightarrow> s1 | Some sw \<Rightarrow> resume_sweep sw s1)))
      else s)"

definition run :: "user_event list \<Rightarrow> session \<Rightarrow> session" where
  "run evs s = foldl (\<lambda>s e. step e s) s evs"

text \<open>The viewer as it is mounted for a storyboard: nothing cached, nothing in flight.\<close>

definition mount :: "StoryboardData \<Rightarrow> session" where
  "mount d =
     \<lparr>view = \<lparr>editableData = d, generatedImages = Map.empty, loadingImages = Map.empty, alerts = 0\<rparr>,
      outstanding = [], journal = [], next_sweep = 0\<rparr>"

text \<open>The ids of the calls issued and of the calls in flight.\<close>

fun issued_ids :: "entry list \<Rightarrow> int list" where
  "issued_ids [] = []"
| "issued_ids (Issued t i # es) = i # issued_ids es"
| "issued_ids (Settled t i # es) = issued_ids es"

fun settled_ids :: "entry list \<Rightarrow> int list" where
  "settled_ids [] = []"
| "settled_ids (Issued t i # es) = settled_ids es"
| "settled_ids (Settled t i # es) = i # settled_ids es"

text \<open>
  The journal of a sweep numbered \<open>t\<close> over the keyframe ids \<open>ids\<close> when \<open>k\<close> of
  its calls have settled and it makes one call at a time: issue and settlement of
  each of the first \<open>k\<close> calls in turn, then the issue of the next call if there is
  one.
\<close>

fun alternating :: "nat \<Rightarrow> int list \<Rightarrow> entry list" where
  "alternating t [] = []"
| "alternating t (i # ids) = Issued (Some t) i # Settled (Some t) i # alternating t ids"

definition sweep_journal :: "nat \<Rightarrow> int list \<Rightarrow> nat \<Rightarrow> entry list" where
  "sweep_journal t ids k =
     alternating t (take k ids) @ map (Issued (Some t)) (take 1 (drop k ids))"

definition in_flight :: "session \<Rightarrow> int \<Rightarrow> nat" where
  "in_flight s i = length (filter (\<lambda>p. call_id (fst p) = i) (outstanding s))"

text \<open>
  The calls in flight that the sweep numbered \<open>t\<close> awaits, by keyframe id.
\<close>

definition sweep_calls :: "nat \<Rightarrow> (image_call \<times> sweep option) list \<Rightarrow> int list" where
  "sweep_calls t calls =
     map (\<lambda>p. call_id (fst p)) (filter (\<lambda>p. map_option sweep_no (snd p) = Some t) calls)"

text \<open>
  Reading a journal from its start for the sweep numbered \<open>t\<close>, with \<open>p\<close> the call
  of that sweep that is in flight, if any: \<open>pending_call\<close> is the call in flight at
  the end; \<open>one_at_a_time\<close> says that the sweep issues a call only when none of its
  calls is in flight and that what settles is the call in flight.
\<close>

fun pending_call :: "nat \<Rightarrow> int option \<Rightarrow> entry list \<Rightarrow> int option" where
  "pending_call t p [] = p"
| "pending_call t p (Issued tag i # es) = pending_call t (if tag = Some t then Some i else p) es"
| "pending_call t p (Settled tag i # es) = pending_call t (if tag = Some t then None else p) es"

fun one_at_a_time :: "nat \<Rightarrow> int option \<Rightarrow> entry list \<Rightarrow> bool" where
  "one_at_a_time t p [] = True"
| "one_at_a_time t p (Issued tag i # es) =
     (if tag = Some t then p = None \<and> one_at_a_time t (Some i) es else one_at_a_time t p es)"
| "one_at_a_time t p (Settled tag i # es) =
     (if tag = Some t then p = Some i \<and> one_at_a_time t None es else one_at_a_time t p es)"

text \<open>
  What holds of every session that clicks and settlements lead to: the sweeps in
  flight were numbered before, every sweep has made its calls one at a time, and the
  calls in flight of a sweep are the one its journal leaves open.
\<close>

definition consistent :: "session \<Rightarrow> bool" where
  "consistent s =
     ((\<forall>p \<in> set (outstanding s). \<forall>sw. snd p = Some sw \<longrightarrow> sweep_no sw < next_sweep s)
      \<and> (\<forall>t. one_at_a_time t None (journal s))
      \<and> (\<forall>t. sweep_calls t (outstanding s)
               = (case pending_call t None (journal s) of None \<Rightarrow> [] | Some i \<Rightarrow> [i])))"


section \<open>Concrete data for the evaluated instances\<close>

definition example_keyframe :: "int \<Rightarrow> string \<Rightarrow> Keyframe" where
  "example_keyframe i d =
     \<lparr>id_kf = i, shotType = ''Wide shot'', duration_kf = ''3s'', composition = ''Centered'',
      action = ''She opens the door'', dialogue = d, camera = ''Static'', lensDoF = ''35mm'',
      lighting = ''Soft daylight'', sound = ''Room tone''\<rparr>"

definition example_storyboard :: StoryboardData where
  "example_storyboard =
     \<lparr>sourceScript = Some ''A short script'', aspectRatio_sd = Some ''16:9'',
      headline = Some \<lparr>line1 = ''First'', line2 = ''Second''\<rparr>,
      breakdown = \<lparr>subjects = ''A woman'', characters = ''Woman, 30s, short hair'',
                   environmentLighting = ''Apartment, morning'', visualAnchors = [''door'']\<rparr>,
      theme = \<lparr>theme_text = ''Leaving'', logline = ''She leaves home'',
               emotionalArc = \<lparr>arc_setup = ''calm'', arc_build = ''doubt'', arc_turn = ''choice'',
                               arc_payoff = ''relief''\<rparr>\<rparr>,
      approach = \<lparr>shotProgression = ''wide to close'', cameraMovement = ''slow push'',
                  lensExposure = ''35mm'', lightColor = ''warm''\<rparr>,
      keyframes = [example_keyframe 1 ''one'', example_keyframe 2 ''two'']\<rparr>"

definition example_options :: "AspectRatio \<Rightarrow> GenerationOptions" where
  "example_options ar =
     \<lparr>model = Sora2, duration = D15s, imageModel = Nano_Banana, inputType = TEXT, aspectRatio = ar\<rparr>"

text \<open>
  An upstream answer that claims the ratio 9:16, and an engine that parses exactly
  that text.
\<close>

definition example_json :: string where
  "example_json = ''{'' @ [CHR 0x22] @ ''aspectRatio'' @ [CHR 0x22] @ '':'' @ [CHR 0x22] @ ''9:16''
     @ [CHR 0x22] @ '','' @ [CHR 0x22] @ ''keyframes'' @ [CHR 0x22] @ '':[]}''"

definition example_runtime :: runtime where
  "example_runtime =
     \<lparr>JSON_parse = (\<lambda>t. if t = example_json
                          then Inr (JObj [(''aspectRatio'', JStr ''9:16''), (''keyframes'', JArr [] [])])
                          else Inl ''Unexpected token in JSON''),
      TypeError_message = ''Cannot set properties of null''\<rparr>"

definition example_service :: service where
  "example_service req = Inr \<lparr>response_text = Some example_json, candidates = None\<rparr>"

definition failing_service :: service where
  "failing_service req = Inl (Rejected (Some ''Requested entity was not found.''))"

definition example_storage :: "string option \<Rightarrow> jsval storage" where
  "example_storage k = \<lparr>cinescript_api_key = k, cinescript_history_v2 = None\<rparr>"

definition example_file :: File where
  "example_file = \<lparr>file_type = ''image/png'', file_base64 = Inr ''aGVsbG8=''\<rparr>"

definition example_entry :: "'d \<Rightarrow> nat \<Rightarrow> 'd SavedStoryboard" where
  "example_entry d ts =
     \<lparr>id_sv = decimal ts, timestamp = int ts, data = d, options = example_options R9_16,
      previewImage = None\<rparr>"

definition example_shell :: "'d SavedStoryboard list \<Rightarrow> 'd option \<Rightarrow> 'd shell" where
  "example_shell h d =
     \<lparr>appState = UPLOAD, selectedImage = None, previewImageData = None, selectedText = [],
      storyboardData = d, error = None, selectedOptions = None, history = h,
      hasKey = False, isSettingsOpen = False\<rparr>"


section \<open>Aspect ratio of a generated storyboard\<close>

lemma assign_aspectRatio_field:
  "assign_aspectRatio rt v ar = Inr d \<Longrightarrow>
     get_prop d ''aspectRatio'' = Some (JStr (AspectRatio_text ar))"
  by (cases v) (auto simp: update_conv')

lemma generateStoryboard_result:
  assumes "generateStoryboard rt st env ai inp opts = (Inr d, evs)"
  shows "\<exists>v. assign_aspectRatio rt v (aspectRatio opts) = Inr d"
  using assms
  by (auto simp: generateStoryboard_def Let_def MissingCredential_def
           split: if_splits sum.splits option.splits)

lemma example_generateStoryboard:
  "generateStoryboard example_runtime (example_storage (Some ''k'')) None example_service
     (Text_input ''hello'') (example_options ar)
   = (Inr (JObj [(''aspectRatio'', JStr (AspectRatio_text ar)), (''keyframes'', JArr [] [])]),
      [Client_constructed ''k'',
       Network_call \<lparr>model_name = ''gemini-3-pro-preview'',
         parts = [Text (''Context: '' @ [CHR 0x22] @ ''hello'' @ [CHR 0x22]), DirectorPrompt ar],
         config = StoryboardConfig\<rparr>])"
  by (simp add: generateStoryboard_def getApiKey_def or_default_def or_else_def truthy_def
        example_storage_def example_service_def example_runtime_def example_options_def
        example_json_def Let_def)

text \<open>
  C1. Whenever \<^verbatim>\<open>generateStoryboard\<close> returns a storyboard, the \<^verbatim>\<open>aspectRatio\<close>
  property of the returned value is the text of \<^verbatim>\<open>options.aspectRatio\<close>: it is
  \<^verbatim>\<open>16:9\<close> for a request of 16:9 and \<^verbatim>\<open>9:16\<close> for a request of 9:16, whatever
  the parsed answer of the service carried in that property.
\<close>

theorem generateStoryboard_forces_aspectRatio:
  assumes "generateStoryboard rt st env ai inp opts = (Inr d, evs)"
  shows "get_prop d ''aspectRatio'' = Some (JStr (AspectRatio_text (aspectRatio opts)))
       \<and> (aspectRatio opts = R16_9 \<longrightarrow> get_prop d ''aspectRatio'' = Some (JStr ''16:9''))
       \<and> (aspectRatio opts = R9_16 \<longrightarrow> get_prop d ''aspectRatio'' = Some (JStr ''9:16''))"
proof -
  obtain v where "assign_aspectRatio rt v (aspectRatio opts) = Inr d"
    using generateStoryboard_result[OF assms] by blast
  then have "get_prop d ''aspectRatio'' = Some (JStr (AspectRatio_text (aspectRatio opts)))"
    by (rule assign_aspectRatio_field)
  then show ?thesis by (cases "aspectRatio opts") simp_all
qed

text \<open>
  The service answers with an object whose \<^verbatim>\<open>aspectRatio\<close> is \<^verbatim>\<open>9:16\<close>; the request
  asks for 16:9 and the storyboard returned says 16:9 (and 9:16 for a request of
  9:16).
\<close>

theorem generateStoryboard_forces_aspectRatio_witness:
  "JSON_parse example_runtime example_json
     = Inr (JObj [(''aspectRatio'', JStr ''9:16''), (''keyframes'', JArr [] [])])
   \<and> fst (generateStoryboard example_runtime (example_storage (Some ''k'')) None example_service
            (Text_input ''hello'') (example_options R16_9))
     = Inr (JObj [(''aspectRatio'', JStr ''16:9''), (''keyframes'', JArr [] [])])
   \<and> get_prop (JObj [(''aspectRatio'', JStr ''16:9''), (''keyframes'', JArr [] [])]) ''aspectRatio''
     = Some (JStr ''16:9'')
   \<and> get_prop (JObj [(''aspectRatio'', JStr ''9:16''), (''keyframes'', JArr [] [])]) ''aspectRatio''
     = Some (JStr ''9:16'')"
  using generateStoryboard_forces_aspectRatio[OF example_generateStoryboard[of R16_9]]
        generateStoryboard_forces_aspectRatio[OF example_generateStoryboard[of R9_16]]
        example_generateStoryboard[of R16_9]
  by (simp add: example_options_def example_runtime_def)


section \<open>Editing a dialogue: what changes\<close>

text \<open>
  C10. Editing the dialogue of the keyframe with id \<open>i\<close> leaves everything of the
  editable storyboard but the keyframe list as it was (breakdown, theme, approach,
  headline, source script and whatever else the value carries); the list keeps its
  length, its order and its ids; a keyframe whose id is \<open>i\<close> gets the new dialogue
  and keeps every other field, a keyframe with another id is unchanged; and when no
  keyframe has the id \<open>i\<close> the storyboard is unchanged.
\<close>

theorem handleDialogueChange_frame:
  fixes sb :: "'a StoryboardData_scheme"
  shows "(handleDialogueChange i d sb)\<lparr>keyframes := keyframes sb\<rparr> = sb
       \<and> breakdown (handleDialogueChange i d sb) = breakdown sb
       \<and> theme (handleDialogueChange i d sb) = theme sb
       \<and> approach (handleDialogueChange i d sb) = approach sb
       \<and> headline (handleDialogueChange i d sb) = headline sb
       \<and> sourceScript (handleDialogueChange i d sb) = sourceScript sb
       \<and> length (keyframes (handleDialogueChange i d sb)) = length (keyframes sb)
       \<and> map id_kf (keyframes (handleDialogueChange i d sb)) = map id_kf (keyframes sb)
       \<and> (\<forall>k < length (keyframes sb).
             (keyframes (handleDialogueChange i d sb) ! k)\<lparr>dialogue := dialogue (keyframes sb ! k)\<rparr>
               = keyframes sb ! k
           \<and> dialogue (keyframes (handleDialogueChange i d sb) ! k)
               = (if id_kf (keyframes sb ! k) = i then d else dialogue (keyframes sb ! k)))
       \<and> (i \<notin> id_kf ` set (keyframes sb) \<longrightarrow> handleDialogueChange i d sb = sb)"
proof -
  have unchanged: "map (\<lambda>kf. if id_kf kf = i then kf\<lparr>dialogue := d\<rparr> else kf) (keyframes sb)
                     = keyframes sb"
    if "i \<notin> id_kf ` set (keyframes sb)"
    using that by (intro map_idI) auto
  have ids: "map id_kf (keyframes (handleDialogueChange i d sb)) = map id_kf (keyframes sb)"
    by (simp add: handleDialogueChange_def comp_def if_distrib cong: if_cong)
  show ?thesis
    using unchanged ids by (simp add: handleDialogueChange_def)
qed

theorem handleDialogueChange_frame_witness:
  "handleDialogueChange 2 ''new line'' example_storyboard
     = example_storyboard\<lparr>keyframes := [example_keyframe 1 ''one'', example_keyframe 2 ''new line'']\<rparr>
   \<and> (7::int) \<notin> id_kf ` set (keyframes example_storyboard)
   \<and> handleDialogueChange 7 ''new line'' example_storyboard = example_storyboard
   \<and> (1::nat) < length (keyframes example_storyboard)
   \<and> dialogue (keyframes (handleDialogueChange 2 ''new line'' example_storyboard) ! 1) = ''new line''"
proof -
  have absent: "(7::int) \<notin> id_kf ` set (keyframes example_storyboard)"
    by (simp add: example_storyboard_def example_keyframe_def)
  have len: "(1::nat) < length (keyframes example_storyboard)"
    by (simp add: example_storyboard_def)
  have same: "handleDialogueChange 7 ''new line'' example_storyboard = example_storyboard"
    using handleDialogueChange_frame[where i = 7 and d = "''new line''" and sb = example_storyboard] absent by blast
  have at1: "dialogue (keyframes (handleDialogueChange 2 ''new line'' example_storyboard) ! 1) = ''new line''"
    using handleDialogueChange_frame[where i = 2 and d = "''new line''" and sb = example_storyboard] len
    by (simp add: example_storyboard_def example_keyframe_def)
  have upd: "handleDialogueChange 2 ''new line'' example_storyboard
     = example_storyboard\<lparr>keyframes := [example_keyframe 1 ''one'', example_keyframe 2 ''new line'']\<rparr>"
    by (simp add: handleDialogueChange_def example_storyboard_def example_keyframe_def)
  show ?thesis using absent len same at1 upd by blast
qed

section \<open>The grid of the master board\<close>

lemma ceiling_quotient_nat:
  "nat \<lceil>real n / real c\<rceil> = nat (- (- int n div int c))"
proof -
  have "\<lceil>real n / real c\<rceil> = \<lceil>(of_int (int n) :: real) / of_int (int c)\<rceil>" by simp
  also have "\<dots> = - (- int n div int c)" by (rule ceiling_divide_eq_div)
  finally show ?thesis by simp
qed

lemma rows_two_columns:
  "n \<le> 2 * nat \<lceil>real n / 2\<rceil> \<and> 2 * nat \<lceil>real n / 2\<rceil> < n + 2"
proof -
  define r where "r = - (- int n div 2)"
  have e: "nat \<lceil>real n / 2\<rceil> = nat r" using ceiling_quotient_nat[of n 2] by (simp add: r_def)
  have "int n \<le> 2 * r \<and> 2 * r < int n + 2" unfolding r_def by presburger
  then show ?thesis unfolding e by linarith
qed

lemma rows_three_columns:
  "n \<le> 3 * nat \<lceil>real n / 3\<rceil> \<and> 3 * nat \<lceil>real n / 3\<rceil> < n + 3"
proof -
  define r where "r = - (- int n div 3)"
  have e: "nat \<lceil>real n / 3\<rceil> = nat r" using ceiling_quotient_nat[of n 3] by (simp add: r_def)
  have "int n \<le> 3 * r \<and> 3 * r < int n + 3" unfolding r_def by presburger
  then show ?thesis unfolding e by linarith
qed

text \<open>
  C5. For every number \<open>n\<close> of keyframes the layout for 16:9 has 2 columns of cells
  of 640 by 360 and the layout for 9:16 has 3 columns of cells of 360 by 640; the
  header is 280 high; the number of rows is the ceiling of \<open>n\<close> over the number of
  columns, that is the least number of rows whose cells hold \<open>n\<close> keyframes; the
  canvas is columns times cell width wide and header plus rows times cell height
  high. Seven keyframes give 3 by 3 cells at 9:16 and 2 columns by 4 rows at 16:9.
\<close>

theorem masterBoardLayout_geometry:
  "masterBoardLayout R16_9 n =
     \<lparr>cols = 2, cellWidth = 640, cellHeight = 360, headerHeight = 280,
      rows = nat \<lceil>real n / 2\<rceil>, canvas_width = 2 * 640,
      canvas_height = 280 + nat \<lceil>real n / 2\<rceil> * 360\<rparr>
   \<and> masterBoardLayout R9_16 n =
     \<lparr>cols = 3, cellWidth = 360, cellHeight = 640, headerHeight = 280,
      rows = nat \<lceil>real n / 3\<rceil>, canvas_width = 3 * 360,
      canvas_height = 280 + nat \<lceil>real n / 3\<rceil> * 640\<rparr>
   \<and> rows (masterBoardLayout ar n) = nat \<lceil>real n / real (cols (masterBoardLayout ar n))\<rceil>
   \<and> n \<le> cols (masterBoardLayout ar n) * rows (masterBoardLayout ar n)
   \<and> cols (masterBoardLayout ar n) * rows (masterBoardLayout ar n) < n + cols (masterBoardLayout ar n)
   \<and> canvas_width (masterBoardLayout ar n)
       = cols (masterBoardLayout ar n) * cellWidth (masterBoardLayout ar n)
   \<and> canvas_height (masterBoardLayout ar n)
       = headerHeight (masterBoardLayout ar n)
         + rows (masterBoardLayout ar n) * cellHeight (masterBoardLayout ar n)
   \<and> (cols (masterBoardLayout R9_16 7), rows (masterBoardLayout R9_16 7)) = (3, 3)
   \<and> (cols (masterBoardLayout R16_9 7), rows (masterBoardLayout R16_9 7)) = (2, 4)"
  using rows_two_columns[of n] rows_three_columns[of n]
  by (cases ar) (simp_all add: masterBoardLayout_def isHorizontal_def Let_def)

section \<open>Placement of an image in its cell\<close>

text \<open>
  C6. For an image and a cell of positive dimensions the draw routine places the
  image as follows. When the aspect ratio of the image is greater than that of the
  cell, the rendered height is the cell height, the horizontal offset is
  (cell width - rendered width) / 2 and the vertical offset is 0. Otherwise the
  rendered width is the cell width, the vertical offset is
  (cell height - rendered height) / 2 and the horizontal offset is 0. Either way
  the image keeps its aspect ratio and covers the cell. A 2:1 image in the 640 by
  360 cell takes the first branch, a 1:2 image the second.
\<close>

theorem coverFit_placement:
  assumes "0 < cw" and "0 < ch" and "0 < imgW" and "0 < imgH"
  shows "(\<exists>p. coverFit cw ch imgW imgH = Some p
           \<and> (if real imgW / real imgH > real cw / real ch
               then branch p = FillHeight \<and> renderH p = real ch
                    \<and> offsetX p = (real cw - renderW p) / 2 \<and> offsetY p = 0
               else branch p = FillWidth \<and> renderW p = real cw
                    \<and> offsetY p = (real ch - renderH p) / 2 \<and> offsetX p = 0)
           \<and> renderW p / renderH p = real imgW / real imgH
           \<and> real cw \<le> renderW p \<and> real ch \<le> renderH p)
       \<and> map_option branch (coverFit 640 360 (2 * imgH) imgH) = Some FillHeight
       \<and> map_option branch (coverFit 640 360 imgW (2 * imgW)) = Some FillWidth"
proof -
  have general: "\<exists>p. coverFit cw ch imgW imgH = Some p
           \<and> (if real imgW / real imgH > real cw / real ch
               then branch p = FillHeight \<and> renderH p = real ch
                    \<and> offsetX p = (real cw - renderW p) / 2 \<and> offsetY p = 0
               else branch p = FillWidth \<and> renderW p = real cw
                    \<and> offsetY p = (real ch - renderH p) / 2 \<and> offsetX p = 0)
           \<and> renderW p / renderH p = real imgW / real imgH
           \<and> real cw \<le> renderW p \<and> real ch \<le> renderH p"
  proof (cases "real imgW / real imgH > real cw / real ch")
    case True
    have "real cw \<le> real ch * (real imgW / real imgH)"
      using True assms by (simp add: field_simps)
    then show ?thesis
      using True assms by (simp add: coverFit_def Let_def)
  next
    case False
    have "real ch \<le> real cw / (real imgW / real imgH)"
      using False assms by (simp add: field_simps)
    then show ?thesis
      using False assms by (simp add: coverFit_def Let_def)
  qed
  have wide: "map_option branch (coverFit 640 360 (2 * imgH) imgH) = Some FillHeight"
    using assms by (simp add: coverFit_def Let_def)
  have tall: "map_option branch (coverFit 640 360 imgW (2 * imgW)) = Some FillWidth"
    using assms by (simp add: coverFit_def Let_def field_simps)
  show ?thesis using general wide tall by blast
qed

theorem coverFit_placement_witness:
  "(0::nat) < 640 \<and> (0::nat) < 360 \<and> (0::nat) < 1280
   \<and> coverFit 640 360 1280 640
       = Some \<lparr>branch = FillHeight, renderW = 720, renderH = 360, offsetX = - 40, offsetY = 0\<rparr>
   \<and> coverFit 640 360 320 640
       = Some \<lparr>branch = FillWidth, renderW = 640, renderH = 1280, offsetX = 0, offsetY = - 460\<rparr>
   \<and> map_option branch (coverFit 640 360 1280 640) = Some FillHeight"
  using coverFit_placement[of 640 360 1280 640]
  by (simp add: coverFit_def Let_def)


section \<open>Resolution of the credential\<close>

lemma getApiKey_cases:
  "getApiKey st env =
     (case cinescript_api_key st of
        Some k \<Rightarrow> if k \<noteq> [] then k else or_default env []
      | None \<Rightarrow> or_default env [])"
  by (simp add: getApiKey_def or_else_def or_default_def truthy_def Let_def
           split: option.splits)

lemma getApiKey_empty_iff:
  "getApiKey st env = [] \<longleftrightarrow> \<not> truthy (cinescript_api_key st) \<and> \<not> truthy env"
  by (simp add: getApiKey_cases or_default_def truthy_def split: option.splits)

lemma generateStoryboard_trace:
  "getApiKey st env \<noteq> [] \<Longrightarrow>
     \<exists>rest. snd (generateStoryboard rt st env ai inp opts)
              = Client_constructed (getApiKey st env) # rest"
  by (simp add: generateStoryboard_def Let_def split: sum.splits option.splits)

lemma generateKeyframeImage_trace:
  "getApiKey st env \<noteq> [] \<Longrightarrow>
     \<exists>rest. snd (generateKeyframeImage st env ai prompt f m ar ctx)
              = Client_constructed (getApiKey st env) # rest"
  by (simp add: generateKeyframeImage_def Let_def split: sum.splits option.splits)

lemma editImageWithPrompt_trace:
  "getApiKey st env \<noteq> [] \<Longrightarrow>
     \<exists>rest. snd (editImageWithPrompt st env ai f prompt)
              = Client_constructed (getApiKey st env) # rest"
  by (simp add: editImageWithPrompt_def Let_def split: sum.splits option.splits)

text \<open>
  C2. A stored key is used when it is a non-empty string, whatever the environment
  holds; otherwise the key of the environment is used when it is a non-empty string;
  each of the three operations then constructs its client with the key resolved, before
  anything else. When neither is a non-empty string, each of the three operations
  throws the missing-credential error and has constructed no client and made no
  network call. A stored empty string behaves as no stored key.
\<close>

theorem credential_resolution:
  fixes st :: "'d storage"
  shows "(truthy (cinescript_api_key st) \<longrightarrow> Some (getApiKey st env) = cinescript_api_key st)
       \<and> (\<not> truthy (cinescript_api_key st) \<and> truthy env \<longrightarrow> Some (getApiKey st env) = env)
       \<and> (truthy (cinescript_api_key st) \<or> truthy env \<longrightarrow>
            (\<exists>rest. snd (generateStoryboard rt st env ai inp opts)
                       = Client_constructed (getApiKey st env) # rest)
          \<and> (\<exists>rest. snd (generateKeyframeImage st env ai prompt original m ar ctx)
                       = Client_constructed (getApiKey st env) # rest)
          \<and> (\<exists>rest. snd (editImageWithPrompt st env ai f prompt)
                       = Client_constructed (getApiKey st env) # rest))
       \<and> (\<not> truthy (cinescript_api_key st) \<and> \<not> truthy env \<longrightarrow>
            generateStoryboard rt st env ai inp opts = (Inl MissingCredential, [])
          \<and> generateKeyframeImage st env ai prompt original m ar ctx = (Inl MissingCredential, [])
          \<and> editImageWithPrompt st env ai f prompt = (Inl MissingCredential, []))
       \<and> \<not> truthy (Some [])
       \<and> generateStoryboard rt (st\<lparr>cinescript_api_key := Some []\<rparr>) env ai inp opts
           = generateStoryboard rt (st\<lparr>cinescript_api_key := None\<rparr>) env ai inp opts
       \<and> generateKeyframeImage (st\<lparr>cinescript_api_key := Some []\<rparr>) env ai prompt original m ar ctx
           = generateKeyframeImage (st\<lparr>cinescript_api_key := None\<rparr>) env ai prompt original m ar ctx
       \<and> editImageWithPrompt (st\<lparr>cinescript_api_key := Some []\<rparr>) env ai f prompt
           = editImageWithPrompt (st\<lparr>cinescript_api_key := None\<rparr>) env ai f prompt"
proof -
  have stored: "truthy (cinescript_api_key st) \<longrightarrow> Some (getApiKey st env) = cinescript_api_key st"
    by (simp add: getApiKey_cases truthy_def split: option.splits)
  have fallback: "\<not> truthy (cinescript_api_key st) \<and> truthy env \<longrightarrow> Some (getApiKey st env) = env"
    by (simp add: getApiKey_cases or_default_def truthy_def split: option.splits)
  have used: "truthy (cinescript_api_key st) \<or> truthy env \<longrightarrow>
            (\<exists>rest. snd (generateStoryboard rt st env ai inp opts)
                       = Client_constructed (getApiKey st env) # rest)
          \<and> (\<exists>rest. snd (generateKeyframeImage st env ai prompt original m ar ctx)
                       = Client_constructed (getApiKey st env) # rest)
          \<and> (\<exists>rest. snd (editImageWithPrompt st env ai f prompt)
                       = Client_constructed (getApiKey st env) # rest)"
    using generateStoryboard_trace[of st env] generateKeyframeImage_trace[of st env]
          editImageWithPrompt_trace[of st env] getApiKey_empty_iff[of st env]
    by blast
  have missing: "\<not> truthy (cinescript_api_key st) \<and> \<not> truthy env \<longrightarrow>
            generateStoryboard rt st env ai inp opts = (Inl MissingCredential, [])
          \<and> generateKeyframeImage st env ai prompt original m ar ctx = (Inl MissingCredential, [])
          \<and> editImageWithPrompt st env ai f prompt = (Inl MissingCredential, [])"
    using getApiKey_empty_iff[of st env]
    by (simp add: generateStoryboard_def generateKeyframeImage_def editImageWithPrompt_def)
  have same_key: "getApiKey (st\<lparr>cinescript_api_key := Some []\<rparr>) env
                    = getApiKey (st\<lparr>cinescript_api_key := None\<rparr>) env"
    by (simp add: getApiKey_cases)
  have empty: "\<not> truthy (Some [])" by (simp add: truthy_def)
  have e1: "generateStoryboard rt (st\<lparr>cinescript_api_key := Some []\<rparr>) env ai inp opts
           = generateStoryboard rt (st\<lparr>cinescript_api_key := None\<rparr>) env ai inp opts"
    by (simp add: generateStoryboard_def same_key)
  have e2: "generateKeyframeImage (st\<lparr>cinescript_api_key := Some []\<rparr>) env ai prompt original m ar ctx
           = generateKeyframeImage (st\<lparr>cinescript_api_key := None\<rparr>) env ai prompt original m ar ctx"
    by (simp add: generateKeyframeImage_def same_key)
  have e3: "editImageWithPrompt (st\<lparr>cinescript_api_key := Some []\<rparr>) env ai f prompt
           = editImageWithPrompt (st\<lparr>cinescript_api_key := None\<rparr>) env ai f prompt"
    by (simp add: editImageWithPrompt_def same_key)
  show ?thesis using stored fallback used missing empty e1 e2 e3 by blast
qed


theorem credential_resolution_witness:
  "truthy (cinescript_api_key (example_storage (Some ''local'')))
   \<and> getApiKey (example_storage (Some ''local'')) (Some ''env'') = ''local''
   \<and> \<not> truthy (cinescript_api_key (example_storage None)) \<and> truthy (Some ''env'')
   \<and> getApiKey (example_storage None) (Some ''env'') = ''env''
   \<and> \<not> truthy None
   \<and> generateStoryboard example_runtime (example_storage None) None example_service
         (Text_input ''hello'') (example_options R9_16) = (Inl MissingCredential, [])
   \<and> generateKeyframeImage (example_storage None) None example_service ''Action: run.''
         (Some example_file) Nano_Banana R9_16 (Some ''Woman, 30s'') = (Inl MissingCredential, [])
   \<and> editImageWithPrompt (example_storage None) None example_service example_file ''brighter''
         = (Inl MissingCredential, [])
   \<and> (\<exists>rest. snd (editImageWithPrompt (example_storage (Some ''local'')) (Some ''env'')
                      example_service example_file ''brighter'')
                = Client_constructed ''local'' # rest)
   \<and> (\<exists>rest. snd (editImageWithPrompt (example_storage None) (Some ''env'')
                      example_service example_file ''brighter'')
                = Client_constructed ''env'' # rest)"
proof -
  have t1: "truthy (cinescript_api_key (example_storage (Some ''local'')))"
    by (simp add: truthy_def example_storage_def)
  have t2: "\<not> truthy (cinescript_api_key (example_storage None))"
    by (simp add: truthy_def example_storage_def)
  have t3: "truthy (Some ''env'')" and t4: "\<not> truthy None"
    by (simp_all add: truthy_def)
  note both = credential_resolution[where st = "example_storage (Some ''local'')"
      and env = "Some ''env''" and ai = example_service and f = example_file
      and prompt = "''brighter''"]
  note fallback = credential_resolution[where st = "example_storage None"
      and env = "Some ''env''" and ai = example_service and f = example_file
      and prompt = "''brighter''"]
  note neither = credential_resolution[where st = "example_storage None" and env = None
      and rt = example_runtime and ai = example_service and inp = "Text_input ''hello''"
      and opts = "example_options R9_16" and original = "Some example_file"
      and m = Nano_Banana and ar = R9_16 and ctx = "Some ''Woman, 30s''"
      and f = example_file and prompt = "''brighter''"]
  have k1: "getApiKey (example_storage (Some ''local'')) (Some ''env'') = ''local''"
    using both t1 by (simp add: example_storage_def)
  have k2: "getApiKey (example_storage None) (Some ''env'') = ''env''"
    using fallback t2 t3 by simp
  have g1: "generateStoryboard example_runtime (example_storage None) None example_service
         (Text_input ''hello'') (example_options R9_16) = (Inl MissingCredential, [])"
    using credential_resolution[where st = "example_storage None" and env = None] t2 t4 by blast
  have g2: "generateKeyframeImage (example_storage None) None example_service ''Action: run.''
         (Some example_file) Nano_Banana R9_16 (Some ''Woman, 30s'') = (Inl MissingCredential, [])"
    using credential_resolution[where st = "example_storage None" and env = None] t2 t4 by blast
  have g3: "editImageWithPrompt (example_storage None) None example_service example_file ''brighter''
         = (Inl MissingCredential, [])"
    using credential_resolution[where st = "example_storage None" and env = None] t2 t4 by blast
  have u1: "\<exists>rest. snd (editImageWithPrompt (example_storage (Some ''local'')) (Some ''env'')
                      example_service example_file ''brighter'')
                = Client_constructed ''local'' # rest"
    using both t1 k1 by simp
  have u2: "\<exists>rest. snd (editImageWithPrompt (example_storage None) (Some ''env'')
                      example_service example_file ''brighter'')
                = Client_constructed ''env'' # rest"
    using fallback t3 k2 by simp
  show ?thesis using t1 t2 t3 t4 k1 k2 g1 g2 g3 u1 u2 by blast
qed

section \<open>The shell without a credential\<close>

text \<open>
  C8. When neither the stored key nor the key of the environment is a non-empty
  string, \<^verbatim>\<open>handleGenerate\<close> leaves the screen of the shell as it was (so it does
  not go from UPLOAD to ANALYZING), does not call the adapter, sets the message that
  no key is configured and opens the settings panel; nothing else of the shell and
  nothing of the storage changes.
\<close>

theorem handleGenerate_without_credential:
  assumes "\<not> truthy (cinescript_api_key st)" and "\<not> truthy env"
  shows "handleGenerate rt env ai now_id now_ts inp opts (sh, st)
           = ((sh\<lparr>error := Some Msg_no_key, isSettingsOpen := True\<rparr>, st), [])
       \<and> appState (fst (fst (handleGenerate rt env ai now_id now_ts inp opts (sh, st)))) = appState sh
       \<and> (appState sh = UPLOAD \<longrightarrow>
            appState (fst (fst (handleGenerate rt env ai now_id now_ts inp opts (sh, st)))) \<noteq> ANALYZING)
       \<and> error (fst (fst (handleGenerate rt env ai now_id now_ts inp opts (sh, st)))) = Some Msg_no_key
       \<and> isSettingsOpen (fst (fst (handleGenerate rt env ai now_id now_ts inp opts (sh, st))))
       \<and> snd (handleGenerate rt env ai now_id now_ts inp opts (sh, st)) = []"
  using assms by (simp add: handleGenerate_def Let_def)

theorem handleGenerate_without_credential_witness:
  "\<not> truthy (cinescript_api_key (example_storage (Some []))) \<and> \<not> truthy None
   \<and> appState (example_shell [] None) = UPLOAD
   \<and> handleGenerate example_runtime None example_service 5 6 (Text_input ''hello'')
        (example_options R9_16) (example_shell [] None, example_storage (Some []))
      = (((example_shell [] None)\<lparr>error := Some Msg_no_key, isSettingsOpen := True\<rparr>,
          example_storage (Some [])), [])"
proof -
  have a: "\<not> truthy (cinescript_api_key (example_storage (Some [])))"
    by (simp add: truthy_def example_storage_def)
  have b: "\<not> truthy None" by (simp add: truthy_def)
  have c: "appState (example_shell [] None) = UPLOAD" by (simp add: example_shell_def)
  show ?thesis
    using handleGenerate_without_credential[OF a b] a b c by blast
qed

section \<open>The shell after a failed generation\<close>

lemma handleGenerate_catch_effect:
  "appState (handleGenerate_catch err sh) = UPLOAD
   \<and> error (handleGenerate_catch err sh)
       \<in> {Some Msg_key_rejected, Some Msg_invalid_format, Some Msg_invalid_project,
          Some Msg_generation_failed}
   \<and> storyboardData (handleGenerate_catch err sh) = storyboardData sh
   \<and> history (handleGenerate_catch err sh) = history sh"
  by (simp add: handleGenerate_catch_def Let_def)

lemma handleGenerate_begin_effect:
  "appState (handleGenerate_begin inp opts sh) = ANALYZING
   \<and> storyboardData (handleGenerate_begin inp opts sh) = storyboardData sh
   \<and> history (handleGenerate_begin inp opts sh) = history sh"
  by (cases inp) (simp_all add: handleGenerate_begin_def Let_def)

text \<open>
  C9. When \<^verbatim>\<open>handleGenerate\<close> has passed its credential guard and the call of
  \<^verbatim>\<open>generateStoryboard\<close> throws, the shell, which showed ANALYZING while it waited,
  ends in UPLOAD with one of the four inline messages (key rejected, invalid format,
  invalid project, generation failed); the storyboard data it held, its history
  list and the whole storage, with the persisted history, are as before the call.
\<close>

theorem handleGenerate_failure_keeps_state:
  assumes "truthy (cinescript_api_key st) \<or> truthy env"
      and "generateStoryboard rt st env ai inp opts = (Inl err, evs)"
  shows "appState (handleGenerate_begin inp opts sh) = ANALYZING
       \<and> fst (handleGenerate rt env ai now_id now_ts inp opts (sh, st))
           = (handleGenerate_catch err (handleGenerate_begin inp opts sh), st)
       \<and> appState (fst (fst (handleGenerate rt env ai now_id now_ts inp opts (sh, st)))) = UPLOAD
       \<and> error (fst (fst (handleGenerate rt env ai now_id now_ts inp opts (sh, st))))
           \<in> {Some Msg_key_rejected, Some Msg_invalid_format, Some Msg_invalid_project,
              Some Msg_generation_failed}
       \<and> storyboardData (fst (fst (handleGenerate rt env ai now_id now_ts inp opts (sh, st))))
           = storyboardData sh
       \<and> history (fst (fst (handleGenerate rt env ai now_id now_ts inp opts (sh, st)))) = history sh
       \<and> snd (fst (handleGenerate rt env ai now_id now_ts inp opts (sh, st))) = st
       \<and> loadHistory (snd (fst (handleGenerate rt env ai now_id now_ts inp opts (sh, st))))
           = loadHistory st"
proof -
  have run: "fst (handleGenerate rt env ai now_id now_ts inp opts (sh, st))
           = (handleGenerate_catch err (handleGenerate_begin inp opts sh), st)"
    using assms by (auto simp add: handleGenerate_def Let_def)
  show ?thesis
    unfolding run
    using handleGenerate_catch_effect[of err "handleGenerate_begin inp opts sh"]
          handleGenerate_begin_effect[of inp opts sh]
    by simp
qed

lemma example_failure:
  "generateStoryboard example_runtime (example_storage (Some ''k'')) None failing_service
     (Text_input ''hello'') (example_options R16_9)
   = (Inl (Rejected (Some ''Requested entity was not found.'')),
      [Client_constructed ''k'',
       Network_call \<lparr>model_name = ''gemini-3-pro-preview'',
         parts = [Text (''Context: '' @ [CHR 0x22] @ ''hello'' @ [CHR 0x22]), DirectorPrompt R16_9],
         config = StoryboardConfig\<rparr>])"
  by (simp add: generateStoryboard_def getApiKey_def or_default_def or_else_def truthy_def
        example_storage_def failing_service_def example_options_def Let_def)

theorem handleGenerate_failure_keeps_state_witness:
  "truthy (cinescript_api_key (example_storage (Some ''k'')))
   \<and> fst (generateStoryboard example_runtime (example_storage (Some ''k'')) None failing_service
            (Text_input ''hello'') (example_options R16_9))
       = Inl (Rejected (Some ''Requested entity was not found.''))
   \<and> fst (handleGenerate example_runtime None failing_service 5 6 (Text_input ''hello'')
            (example_options R16_9)
            ((example_shell [example_entry JNull 100] (Some (JObj [])))\<lparr>appState := STORYBOARD\<rparr>,
             example_storage (Some ''k'')))
       = ((example_shell [example_entry JNull 100] (Some (JObj [])))
            \<lparr>appState := UPLOAD, selectedText := ''hello'',
             error := Some Msg_invalid_project,
             selectedOptions := Some (example_options R16_9), isSettingsOpen := True\<rparr>,
          example_storage (Some ''k''))"
proof -
  have guard: "truthy (cinescript_api_key (example_storage (Some ''k''))) \<or> truthy None"
    by (simp add: truthy_def example_storage_def)
  have "fst (handleGenerate example_runtime None failing_service 5 6 (Text_input ''hello'')
            (example_options R16_9)
            ((example_shell [example_entry JNull 100] (Some (JObj [])))\<lparr>appState := STORYBOARD\<rparr>,
             example_storage (Some ''k'')))
       = (handleGenerate_catch (Rejected (Some ''Requested entity was not found.''))
            (handleGenerate_begin (Text_input ''hello'') (example_options R16_9)
               ((example_shell [example_entry JNull 100] (Some (JObj [])))\<lparr>appState := STORYBOARD\<rparr>)),
          example_storage (Some ''k''))"
    using handleGenerate_failure_keeps_state[OF guard example_failure] by blast
  then show ?thesis
    using example_failure
    by (simp add: handleGenerate_catch_def handleGenerate_begin_def message_includes_def
          example_shell_def truthy_def example_storage_def Let_def)
qed



section \<open>History: order, deletion, clearing\<close>

lemma HistoryList_rows_descending:
  "sorted_wrt (\<lambda>a b. timestamp b \<le> timestamp a) (HistoryList_rows items)"
proof -
  have "sorted (map (\<lambda>item. - timestamp item) (HistoryList_rows items))"
    unfolding HistoryList_rows_def by (rule sorted_sort_key)
  then show ?thesis
    by (simp add: sorted_map)
qed

lemma filter_distinct_ids:
  "distinct (map id_sv h) \<Longrightarrow> e \<in> set h \<Longrightarrow>
     filter (\<lambda>item. id_sv item \<noteq> id_sv e) h = remove1 e h"
proof (induction h)
  case Nil
  then show ?case by simp
next
  case (Cons x h)
  show ?case
  proof (cases "x = e")
    case True
    have "id_sv e \<notin> id_sv ` set h"
      using Cons.prems(1) True by simp
    then have "\<forall>y \<in> set h. id_sv y \<noteq> id_sv e"
      by (auto simp: image_iff)
    then have "filter (\<lambda>item. id_sv item \<noteq> id_sv e) h = h"
      by (simp add: filter_id_conv)
    then show ?thesis using True by simp
  next
    case False
    then have "e \<in> set h" using Cons.prems(2) by simp
    moreover have "id_sv x \<noteq> id_sv e"
      using Cons.prems(1) \<open>e \<in> set h\<close> by (auto simp: image_iff)
    ultimately show ?thesis using Cons False by simp
  qed
qed

text \<open>
  C7. The rows of the history list are the entries in descending order of
  timestamp, each entry once. Deleting by id leaves in memory, and as the persisted
  array, the entries with another id in their order; when ids are distinct that is
  the list without the one entry deleted, and the rows rendered next are the rows
  before without it. Clearing leaves an empty list in memory and nothing persisted,
  which reads back as the empty list. Entries with timestamps 100, 300, 200 are
  rendered as 300, 200, 100, and deleting the entry of timestamp 200 then leaves
  300, 100 in memory and persisted.
\<close>

theorem history_order_and_mutation:
  fixes sh :: "'d shell" and st :: "'d storage"
  shows "sorted_wrt (\<lambda>a b. timestamp b \<le> timestamp a) (HistoryList_rows items)
       \<and> mset (HistoryList_rows items) = mset items
       \<and> fst (deleteFromHistory i (sh, st)) = sh\<lparr>history := filter (\<lambda>item. id_sv item \<noteq> i) (history sh)\<rparr>
       \<and> cinescript_history_v2 (snd (deleteFromHistory i (sh, st)))
           = Some (history (fst (deleteFromHistory i (sh, st))))
       \<and> loadHistory (snd (deleteFromHistory i (sh, st))) = history (fst (deleteFromHistory i (sh, st)))
       \<and> (distinct (map id_sv (history sh)) \<and> e \<in> set (history sh) \<longrightarrow>
            history (fst (deleteFromHistory (id_sv e) (sh, st))) = remove1 e (history sh)
          \<and> HistoryList_rows (history (fst (deleteFromHistory (id_sv e) (sh, st))))
              = remove1 e (HistoryList_rows (history sh)))
       \<and> history (fst (clearHistory (sh, st))) = []
       \<and> cinescript_history_v2 (snd (clearHistory (sh, st))) = None
       \<and> loadHistory (snd (clearHistory (sh, st))) = []
       \<and> map timestamp (HistoryList_rows [example_entry d 100, example_entry d 300, example_entry d 200])
           = [300, 200, 100]
       \<and> map timestamp (loadHistory (snd (deleteFromHistory (decimal 200)
            (render_HistoryList ((example_shell [example_entry d 100, example_entry d 300,
                example_entry d 200] None)\<lparr>appState := HISTORY\<rparr>), st))))
           = [300, 100]
       \<and> map timestamp (history (fst (deleteFromHistory (decimal 200)
            (render_HistoryList ((example_shell [example_entry d 100, example_entry d 300,
                example_entry d 200] None)\<lparr>appState := HISTORY\<rparr>), st))))
           = [300, 100]"
proof -
  have order: "sorted_wrt (\<lambda>a b. timestamp b \<le> timestamp a) (HistoryList_rows items)"
    by (rule HistoryList_rows_descending)
  have perm: "mset (HistoryList_rows items) = mset items"
    by (simp add: HistoryList_rows_def)
  have del: "fst (deleteFromHistory i (sh, st)) = sh\<lparr>history := filter (\<lambda>item. id_sv item \<noteq> i) (history sh)\<rparr>"
    "cinescript_history_v2 (snd (deleteFromHistory i (sh, st)))
           = Some (history (fst (deleteFromHistory i (sh, st))))"
    "loadHistory (snd (deleteFromHistory i (sh, st))) = history (fst (deleteFromHistory i (sh, st)))"
    by (simp_all add: deleteFromHistory_def loadHistory_def Let_def)
  have one: "distinct (map id_sv (history sh)) \<and> e \<in> set (history sh) \<longrightarrow>
            history (fst (deleteFromHistory (id_sv e) (sh, st))) = remove1 e (history sh)
          \<and> HistoryList_rows (history (fst (deleteFromHistory (id_sv e) (sh, st))))
              = remove1 e (HistoryList_rows (history sh))"
  proof (intro impI, elim conjE)
    assume d: "distinct (map id_sv (history sh))" and m: "e \<in> set (history sh)"
    have a: "history (fst (deleteFromHistory (id_sv e) (sh, st))) = remove1 e (history sh)"
      using filter_distinct_ids[OF d m] by (simp add: deleteFromHistory_def Let_def)
    have d': "distinct (map id_sv (HistoryList_rows (history sh)))"
      using d by (simp add: HistoryList_rows_def distinct_map)
    have m': "e \<in> set (HistoryList_rows (history sh))"
      using m by (simp add: HistoryList_rows_def)
    have "HistoryList_rows (filter (\<lambda>item. id_sv item \<noteq> id_sv e) (history sh))
            = filter (\<lambda>item. id_sv item \<noteq> id_sv e) (HistoryList_rows (history sh))"
      by (simp add: HistoryList_rows_def filter_sort)
    also have "\<dots> = remove1 e (HistoryList_rows (history sh))"
      by (rule filter_distinct_ids[OF d' m'])
    finally show "history (fst (deleteFromHistory (id_sv e) (sh, st))) = remove1 e (history sh)
          \<and> HistoryList_rows (history (fst (deleteFromHistory (id_sv e) (sh, st))))
              = remove1 e (HistoryList_rows (history sh))"
      using a by (simp add: deleteFromHistory_def Let_def)
  qed
  have clear: "history (fst (clearHistory (sh, st))) = []"
    "cinescript_history_v2 (snd (clearHistory (sh, st))) = None"
    "loadHistory (snd (clearHistory (sh, st))) = []"
    by (simp_all add: clearHistory_def loadHistory_def)
  have dec: "decimal 100 = ''100''" "decimal 200 = ''200''" "decimal 300 = ''300''"
    by code_simp+
  have ex1: "map timestamp (HistoryList_rows [example_entry d 100, example_entry d 300, example_entry d 200])
           = [300, 200, 100]"
    by (simp add: HistoryList_rows_def example_entry_def)
  have ex2: "map timestamp (loadHistory (snd (deleteFromHistory (decimal 200)
            (render_HistoryList ((example_shell [example_entry d 100, example_entry d 300,
                example_entry d 200] None)\<lparr>appState := HISTORY\<rparr>), st))))
           = [300, 100]"
    by (simp add: HistoryList_rows_def example_entry_def deleteFromHistory_def loadHistory_def
          render_HistoryList_def example_shell_def dec Let_def)
  have ex3: "map timestamp (history (fst (deleteFromHistory (decimal 200)
            (render_HistoryList ((example_shell [example_entry d 100, example_entry d 300,
                example_entry d 200] None)\<lparr>appState := HISTORY\<rparr>), st))))
           = [300, 100]"
    by (simp add: HistoryList_rows_def example_entry_def deleteFromHistory_def
          render_HistoryList_def example_shell_def dec Let_def)
  show ?thesis
    using order perm del one clear ex1 ex2 ex3 by blast
qed


theorem history_order_and_mutation_witness:
  "distinct (map id_sv [example_entry JNull 100, example_entry JNull 300, example_entry JNull 200])
   \<and> example_entry JNull 200
       \<in> set [example_entry JNull 100, example_entry JNull 300, example_entry JNull 200]
   \<and> history (fst (deleteFromHistory (decimal 200)
         (example_shell [example_entry JNull 100, example_entry JNull 300, example_entry JNull 200] None,
          example_storage None)))
       = [example_entry JNull 100, example_entry JNull 300]
   \<and> cinescript_history_v2 (snd (deleteFromHistory (decimal 200)
         (example_shell [example_entry JNull 100, example_entry JNull 300, example_entry JNull 200] None,
          example_storage None)))
       = Some [example_entry JNull 100, example_entry JNull 300]"
proof -
  let ?h = "[example_entry JNull 100, example_entry JNull 300, example_entry JNull 200]"
  let ?sh = "example_shell ?h None"
  have dec: "decimal 100 = ''100''" "decimal 200 = ''200''" "decimal 300 = ''300''"
    by code_simp+
  have h: "history ?sh = ?h"
    by (simp add: example_shell_def)
  have d: "distinct (map id_sv (history ?sh))"
    unfolding h by (simp add: example_entry_def dec)
  have m: "example_entry JNull 200 \<in> set (history ?sh)"
    unfolding h by simp
  have i: "id_sv (example_entry JNull 200) = decimal 200"
    by (simp add: example_entry_def)
  have ne: "example_entry JNull 100 \<noteq> example_entry JNull 200"
           "example_entry JNull 300 \<noteq> example_entry JNull 200"
    by (simp_all add: example_entry_def)
  have "history (fst (deleteFromHistory (id_sv (example_entry JNull 200)) (?sh, example_storage None)))
          = remove1 (example_entry JNull 200) (history ?sh)"
    using history_order_and_mutation[where sh = ?sh and st = "example_storage None"
        and e = "example_entry JNull 200" and i = "decimal 200" and items = "[]" and d = JNull]
      d m
    by blast
  then have a: "history (fst (deleteFromHistory (decimal 200) (?sh, example_storage None)))
          = [example_entry JNull 100, example_entry JNull 300]"
    using ne unfolding h i by simp
  have b: "cinescript_history_v2 (snd (deleteFromHistory (decimal 200) (?sh, example_storage None)))
       = Some [example_entry JNull 100, example_entry JNull 300]"
    using a by (simp add: deleteFromHistory_def Let_def)
  show ?thesis using d m a b unfolding h by blast
qed


section \<open>Generating all visuals: one call at a time\<close>

lemma issued_ids_append: "issued_ids (xs @ ys) = issued_ids xs @ issued_ids ys"
  by (induction xs rule: issued_ids.induct) simp_all

lemma settled_ids_append: "settled_ids (xs @ ys) = settled_ids xs @ settled_ids ys"
  by (induction xs rule: settled_ids.induct) simp_all

lemma run_Cons: "run (e # evs) s = run evs (step e s)"
  by (simp add: run_def)

lemma run_Nil: "run [] s = s"
  by (simp add: run_def)

lemma sweep_journal_0: "sweep_journal t (i # ids) 0 = [Issued (Some t) i]"
  by (simp add: sweep_journal_def)

lemma sweep_journal_Suc:
  "sweep_journal t (i # ids) (Suc k) = Issued (Some t) i # Settled (Some t) i # sweep_journal t ids k"
  by (simp add: sweep_journal_def)

lemma sweep_journal_head:
  "Issued (Some t) i # tl (sweep_journal t (i # ids) k) = sweep_journal t (i # ids) k"
  by (cases k) (simp_all add: sweep_journal_0 sweep_journal_Suc)

lemma resume_sweep_fresh_Nil:
  "sweep_rest sw = [] \<Longrightarrow> resume_sweep sw s = s"
  by (simp add: resume_sweep_def)

lemma resume_sweep_fresh_Cons:
  assumes "sweep_rest sw = kf # kfs"
      and "\<not> cached (seen_generatedImages (sweep_closure sw)) (id_kf kf)"
      and "\<not> busy (seen_loadingImages (sweep_closure sw)) (id_kf kf)"
  shows "resume_sweep sw s =
           s\<lparr>view := (view s)\<lparr>loadingImages := (loadingImages (view s))(id_kf kf \<mapsto> True)\<rparr>,
             outstanding := outstanding s @ [(visual_call (sweep_closure sw) kf, Some (sw\<lparr>sweep_rest := kfs\<rparr>))],
             journal := journal s @ [Issued (Some (sweep_no sw)) (id_kf kf)]\<rparr>"
  using assms by (simp add: resume_sweep_def generateVisual_begin_def visual_call_def)

lemma step_Settle_last:
  assumes "outstanding s = pre @ [(c, Some sw)]"
  shows "step (Settle (length pre) res) s =
           resume_sweep sw
             (s\<lparr>view := generateVisual_end (call_id c) res (view s),
                outstanding := pre,
                journal := journal s @ [Settled (Some (sweep_no sw)) (call_id c)]\<rparr>)"
  using assms by (simp add: Let_def)

lemma sweep_run:
  assumes "outstanding s = pre @ [(c, Some sw)]"
      and "\<forall>kf \<in> set (sweep_rest sw).
             \<not> cached (seen_generatedImages (sweep_closure sw)) (id_kf kf)
           \<and> \<not> busy (seen_loadingImages (sweep_closure sw)) (id_kf kf)"
      and "length os \<le> Suc (length (sweep_rest sw))"
  shows "issued_ids (journal (run (map (Settle (length pre)) os) s))
           = issued_ids (journal s) @ take (length os) (map id_kf (sweep_rest sw))
       \<and> settled_ids (journal (run (map (Settle (length pre)) os) s))
           = settled_ids (journal s) @ take (length os) (call_id c # map id_kf (sweep_rest sw))
       \<and> length (outstanding (run (map (Settle (length pre)) os) s))
           = length pre + (if length os < Suc (length (sweep_rest sw)) then 1 else 0)
       \<and> journal (run (map (Settle (length pre)) os) s)
           = journal s @ tl (sweep_journal (sweep_no sw) (call_id c # map id_kf (sweep_rest sw))
                               (length os))"
  using assms
proof (induction os arbitrary: s c sw)
  case Nil
  then show ?case by (simp add: run_Nil sweep_journal_0)
next
  case (Cons res os)
  let ?s1 = "s\<lparr>view := generateVisual_end (call_id c) res (view s),
                outstanding := pre,
                journal := journal s @ [Settled (Some (sweep_no sw)) (call_id c)]\<rparr>"
  have st: "step (Settle (length pre) res) s = resume_sweep sw ?s1"
    by (rule step_Settle_last[OF Cons.prems(1)])
  show ?case
  proof (cases "sweep_rest sw")
    case Nil
    then have os: "os = []" using Cons.prems(3) by simp
    have "step (Settle (length pre) res) s = ?s1"
      using st Nil by (simp add: resume_sweep_fresh_Nil)
    then show ?thesis
      using Nil os
      by (simp add: run_Cons run_Nil issued_ids_append settled_ids_append sweep_journal_def)
  next
    case (Cons kf kfs)
    let ?sw = "sw\<lparr>sweep_rest := kfs\<rparr>"
    have fresh_kf: "\<not> cached (seen_generatedImages (sweep_closure sw)) (id_kf kf)"
                   "\<not> busy (seen_loadingImages (sweep_closure sw)) (id_kf kf)"
      using Cons.prems(2) Cons by simp_all
    define s2 where "s2 = step (Settle (length pre) res) s"
    have s2: "s2 = ?s1\<lparr>view := (view ?s1)\<lparr>loadingImages := (loadingImages (view ?s1))(id_kf kf \<mapsto> True)\<rparr>,
             outstanding := outstanding ?s1 @ [(visual_call (sweep_closure sw) kf, Some ?sw)],
             journal := journal ?s1 @ [Issued (Some (sweep_no sw)) (id_kf kf)]\<rparr>"
      unfolding s2_def st by (rule resume_sweep_fresh_Cons[OF Cons fresh_kf])
    have out2: "outstanding s2 = pre @ [(visual_call (sweep_closure sw) kf, Some ?sw)]"
      unfolding s2 by simp
    have j2: "journal s2 = journal s @ [Settled (Some (sweep_no sw)) (call_id c),
                                        Issued (Some (sweep_no sw)) (id_kf kf)]"
      unfolding s2 by simp
    have fresh2: "\<forall>kf \<in> set (sweep_rest ?sw).
             \<not> cached (seen_generatedImages (sweep_closure ?sw)) (id_kf kf)
           \<and> \<not> busy (seen_loadingImages (sweep_closure ?sw)) (id_kf kf)"
      using Cons.prems(2) Cons by simp
    have len2: "length os \<le> Suc (length (sweep_rest ?sw))"
      using Cons.prems(3) Cons by simp
    have id2: "call_id (visual_call (sweep_closure sw) kf) = id_kf kf"
      by (simp add: visual_call_def)
    have r: "run (map (Settle (length pre)) (res # os)) s = run (map (Settle (length pre)) os) s2"
      by (simp add: run_Cons s2_def)
    have no2: "sweep_no ?sw = sweep_no sw" "sweep_rest ?sw = kfs"
      by simp_all
    note IH = Cons.IH[OF out2 fresh2 len2, unfolded no2 id2]
    note IH1 = IH[THEN conjunct1]
    note IH2 = IH[THEN conjunct2, THEN conjunct1]
    note IH3 = IH[THEN conjunct2, THEN conjunct2, THEN conjunct1]
    note IH4 = IH[THEN conjunct2, THEN conjunct2, THEN conjunct2]
    have j: "journal (run (map (Settle (length pre)) os) s2)
               = journal s @ tl (sweep_journal (sweep_no sw) (call_id c # map id_kf (sweep_rest sw))
                                   (length (res # os)))"
    proof -
      have "journal (run (map (Settle (length pre)) os) s2)
              = journal s @ [Settled (Some (sweep_no sw)) (call_id c)]
                @ (Issued (Some (sweep_no sw)) (id_kf kf)
                   # tl (sweep_journal (sweep_no sw) (id_kf kf # map id_kf kfs) (length os)))"
        using IH4 by (simp add: j2)
      also have "\<dots> = journal s @ [Settled (Some (sweep_no sw)) (call_id c)]
                @ sweep_journal (sweep_no sw) (id_kf kf # map id_kf kfs) (length os)"
        by (simp only: sweep_journal_head)
      finally show ?thesis
        using Cons by (simp add: sweep_journal_Suc)
    qed
    have c1: "issued_ids (journal (run (map (Settle (length pre)) os) s2))
                = issued_ids (journal s) @ take (length (res # os)) (map id_kf (sweep_rest sw))"
      using IH1 Cons by (simp add: j2 issued_ids_append)
    have c2: "settled_ids (journal (run (map (Settle (length pre)) os) s2))
                = settled_ids (journal s)
                  @ take (length (res # os)) (call_id c # map id_kf (sweep_rest sw))"
      using IH2 Cons by (simp add: j2 settled_ids_append)
    have c3: "length (outstanding (run (map (Settle (length pre)) os) s2))
                = length pre + (if length (res # os) < Suc (length (sweep_rest sw)) then 1 else 0)"
      using IH3 Cons by simp
    show ?thesis
      unfolding r using c1 c2 c3 j by blast
  qed
qed


lemma generateVisual_busy_no_call:
  assumes "busy (loadingImages (view s)) (id_kf kf)"
  shows "step (Click_generateVisual kf) s = s"
  using assms by (simp add: generateVisual_begin_def render_def)

lemma generateAllVisuals_loop_call:
  assumes "generateAllVisuals_loop cl kfs v = (v1, Some (c, rest))"
  shows "\<not> cached (seen_generatedImages cl) (call_id c)
       \<and> \<not> busy (seen_loadingImages cl) (call_id c)"
  using assms
proof (induction kfs arbitrary: v)
  case Nil
  then show ?case by simp
next
  case (Cons kf kfs)
  then show ?case
    by (auto simp: generateVisual_begin_def visual_call_def split: if_splits)
qed

lemma pending_call_append:
  "pending_call t p (xs @ ys) = pending_call t (pending_call t p xs) ys"
  by (induction t p xs rule: pending_call.induct) simp_all

lemma one_at_a_time_append:
  "one_at_a_time t p (xs @ ys)
     = (one_at_a_time t p xs \<and> one_at_a_time t (pending_call t p xs) ys)"
  by (induction t p xs rule: one_at_a_time.induct) auto

lemma sweep_calls_append:
  "sweep_calls t (xs @ ys) = sweep_calls t xs @ sweep_calls t ys"
  by (simp add: sweep_calls_def)

lemma sweep_calls_fresh:
  assumes "\<forall>p \<in> set calls. \<forall>sw. snd p = Some sw \<longrightarrow> sweep_no sw < n" and "n \<le> t"
  shows "sweep_calls t calls = []"
  using assms by (auto simp: sweep_calls_def filter_empty_conv)

lemma resume_sweep_shape:
  "(outstanding (resume_sweep sw s) = outstanding s
      \<and> journal (resume_sweep sw s) = journal s
      \<and> next_sweep (resume_sweep sw s) = next_sweep s)
   \<or> (\<exists>c kfs. outstanding (resume_sweep sw s) = outstanding s @ [(c, Some (sw\<lparr>sweep_rest := kfs\<rparr>))]
      \<and> journal (resume_sweep sw s) = journal s @ [Issued (Some (sweep_no sw)) (call_id c)]
      \<and> next_sweep (resume_sweep sw s) = next_sweep s)"
  by (auto simp: resume_sweep_def split: prod.splits option.splits)

lemma consistent_resume_sweep:
  assumes "consistent s"
      and "sweep_no sw < next_sweep s"
      and "sweep_calls (sweep_no sw) (outstanding s) = []"
  shows "consistent (resume_sweep sw s)"
proof -
  have pend: "pending_call (sweep_no sw) None (journal s) = None"
    using assms(1,3) by (auto simp: consistent_def split: option.splits)
  from resume_sweep_shape[of sw s] show ?thesis
  proof (elim disjE exE conjE)
    assume "outstanding (resume_sweep sw s) = outstanding s"
       "journal (resume_sweep sw s) = journal s"
       "next_sweep (resume_sweep sw s) = next_sweep s"
    then show ?thesis using assms(1) by (simp add: consistent_def)
  next
    fix c kfs
    assume o: "outstanding (resume_sweep sw s) = outstanding s @ [(c, Some (sw\<lparr>sweep_rest := kfs\<rparr>))]"
       and j: "journal (resume_sweep sw s) = journal s @ [Issued (Some (sweep_no sw)) (call_id c)]"
       and n: "next_sweep (resume_sweep sw s) = next_sweep s"
    have a: "\<forall>p \<in> set (outstanding (resume_sweep sw s)). \<forall>sw'. snd p = Some sw' \<longrightarrow>
               sweep_no sw' < next_sweep (resume_sweep sw s)"
      using assms(1,2) by (auto simp: consistent_def o n)
    have b: "one_at_a_time t None (journal (resume_sweep sw s))" for t
      using assms(1) pend by (auto simp: consistent_def j one_at_a_time_append)
    have c: "sweep_calls t (outstanding (resume_sweep sw s))
               = (case pending_call t None (journal (resume_sweep sw s)) of
                    None \<Rightarrow> [] | Some i \<Rightarrow> [i])" for t
    proof (cases "t = sweep_no sw")
      case True
      then show ?thesis
        using assms(3) by (simp add: o j sweep_calls_append pending_call_append sweep_calls_def)
    next
      case False
      have "sweep_calls t (outstanding s)
              = (case pending_call t None (journal s) of None \<Rightarrow> [] | Some i \<Rightarrow> [i])"
        using assms(1) by (simp add: consistent_def)
      then show ?thesis
        using False by (simp add: o j sweep_calls_append pending_call_append sweep_calls_def)
    qed
    show ?thesis
      unfolding consistent_def using a b c by blast
  qed
qed


lemma consistent_mount: "consistent (mount d)"
  by (simp add: consistent_def mount_def sweep_calls_def)

lemma consistent_view: "consistent (s\<lparr>view := v\<rparr>) = consistent s"
  by (simp add: consistent_def)

lemma consistent_click_visual:
  assumes "consistent s"
  shows "consistent (step (Click_generateVisual kf) s)"
proof (cases "generateVisual_begin (render (view s)) kf (view s)")
  case (Pair v1 r)
  show ?thesis
  proof (cases r)
    case None
    then show ?thesis using Pair assms by (simp add: consistent_view)
  next
    case (Some c)
    have "consistent (s\<lparr>view := v1, outstanding := outstanding s @ [(c, None)],
                        journal := journal s @ [Issued None (call_id c)]\<rparr>)"
      using assms
      by (simp add: consistent_def one_at_a_time_append pending_call_append sweep_calls_def)
    then show ?thesis using Pair Some by simp
  qed
qed

lemma consistent_click_all:
  assumes "consistent s"
  shows "consistent (step Click_generateAllVisuals s)"
proof -
  let ?s0 = "s\<lparr>next_sweep := Suc (next_sweep s)\<rparr>"
  let ?sw = "\<lparr>sweep_no = next_sweep s, sweep_closure = render (view s),
              sweep_rest = keyframes (editableData (view s))\<rparr>"
  have old: "\<forall>p \<in> set (outstanding s). \<forall>sw. snd p = Some sw \<longrightarrow> sweep_no sw < next_sweep s"
    using assms by (simp add: consistent_def)
  have c0: "consistent ?s0"
    using assms by (auto simp: consistent_def less_Suc_eq)
  have fresh: "sweep_calls (sweep_no ?sw) (outstanding ?s0) = []"
    using sweep_calls_fresh[OF old, of "next_sweep s"] by simp
  have "consistent (resume_sweep ?sw ?s0)"
    by (rule consistent_resume_sweep[OF c0 _ fresh]) simp
  then show ?thesis by simp
qed

lemma sweep_calls_remove:
  assumes "n < length calls" and "calls ! n = (c, owner)"
  shows "sweep_calls t calls
           = sweep_calls t (take n calls)
             @ (if map_option sweep_no owner = Some t then [call_id c] else [])
             @ sweep_calls t (drop (Suc n) calls)"
proof -
  have "calls = take n calls @ (c, owner) # drop (Suc n) calls"
    using assms by (metis id_take_nth_drop)
  then have "sweep_calls t calls
               = sweep_calls t (take n calls @ (c, owner) # drop (Suc n) calls)"
    by simp
  then show ?thesis
    by (simp add: sweep_calls_def)
qed


lemma consistent_settle:
  assumes "consistent s"
  shows "consistent (step (Settle n res) s)"
proof (cases "n < length (outstanding s)")
  case False
  then show ?thesis using assms by simp
next
  case True
  obtain c owner where nth: "outstanding s ! n = (c, owner)"
    by (cases "outstanding s ! n")
  let ?rest = "take n (outstanding s) @ drop (Suc n) (outstanding s)"
  let ?s1 = "s\<lparr>view := generateVisual_end (call_id c) res (view s),
               outstanding := ?rest,
               journal := journal s @ [Settled (map_option sweep_no owner) (call_id c)]\<rparr>"
  have st: "step (Settle n res) s = (case owner of None \<Rightarrow> ?s1 | Some sw \<Rightarrow> resume_sweep sw ?s1)"
    using True nth by (simp add: Let_def)
  have numbered: "\<forall>p \<in> set (outstanding s). \<forall>sw. snd p = Some sw \<longrightarrow> sweep_no sw < next_sweep s"
    using assms by (simp add: consistent_def)
  have seq: "one_at_a_time t None (journal s)" for t
    using assms by (simp add: consistent_def)
  have open_call: "sweep_calls t (outstanding s)
                     = (case pending_call t None (journal s) of None \<Rightarrow> [] | Some i \<Rightarrow> [i])" for t
    using assms by (simp add: consistent_def)
  have parts: "sweep_calls t (outstanding s)
                 = sweep_calls t (take n (outstanding s))
                   @ (if map_option sweep_no owner = Some t then [call_id c] else [])
                   @ sweep_calls t (drop (Suc n) (outstanding s))" for t
    by (rule sweep_calls_remove[OF True nth])
  have sub: "set ?rest \<subseteq> set (outstanding s)"
    using set_take_subset[of n "outstanding s"] set_drop_subset[of "Suc n" "outstanding s"]
    by auto
  have numbered1: "\<forall>p \<in> set (outstanding ?s1). \<forall>sw. snd p = Some sw \<longrightarrow> sweep_no sw < next_sweep ?s1"
    using numbered sub by auto
  have other: "sweep_calls t ?rest = sweep_calls t (outstanding s)"
    if "map_option sweep_no owner \<noteq> Some t" for t
    using parts[of t] that by (simp add: sweep_calls_append)
  show ?thesis
  proof (cases owner)
    case None
    have b: "one_at_a_time t None (journal ?s1)" for t
      using seq[of t] None by (simp add: one_at_a_time_append)
    have c: "sweep_calls t (outstanding ?s1)
               = (case pending_call t None (journal ?s1) of None \<Rightarrow> [] | Some i \<Rightarrow> [i])" for t
      using open_call[of t] other[of t] None by (simp add: pending_call_append)
    have "consistent ?s1"
      unfolding consistent_def using numbered1 b c by blast
    then show ?thesis using st None by simp
  next
    case (Some sw)
    have mine: "pending_call (sweep_no sw) None (journal s) = Some (call_id c)
                \<and> sweep_calls (sweep_no sw) (take n (outstanding s)) = []
                \<and> sweep_calls (sweep_no sw) (drop (Suc n) (outstanding s)) = []"
      using open_call[of "sweep_no sw"] parts[of "sweep_no sw"] Some
      by (auto simp: append_eq_Cons_conv split: option.splits)
    have b: "one_at_a_time t None (journal ?s1)" for t
      using seq[of t] mine Some by (auto simp: one_at_a_time_append)
    have c: "sweep_calls t (outstanding ?s1)
               = (case pending_call t None (journal ?s1) of None \<Rightarrow> [] | Some i \<Rightarrow> [i])" for t
    proof (cases "t = sweep_no sw")
      case True
      then show ?thesis using mine Some by (simp add: pending_call_append sweep_calls_append)
    next
      case False
      then have "map_option sweep_no owner \<noteq> Some t" using Some by auto
      then show ?thesis
        using open_call[of t] other[of t] False Some by (simp add: pending_call_append)
    qed
    have c1: "consistent ?s1"
      unfolding consistent_def using numbered1 b c by blast
    have "(c, Some sw) \<in> set (outstanding s)"
      using True nth Some by (metis nth_mem)
    then have lt: "sweep_no sw < next_sweep ?s1"
      using numbered by auto
    have none: "sweep_calls (sweep_no sw) (outstanding ?s1) = []"
      using mine by (simp add: sweep_calls_append)
    have "consistent (resume_sweep sw ?s1)"
      by (rule consistent_resume_sweep[OF c1 lt none])
    then show ?thesis using st Some by simp
  qed
qed

lemma consistent_step: "consistent s \<Longrightarrow> consistent (step e s)"
  by (cases e) (simp_all only: consistent_click_visual consistent_click_all consistent_settle)

lemma consistent_run: "consistent s \<Longrightarrow> consistent (run evs s)"
  unfolding run_def by (induction evs arbitrary: s) (simp_all add: consistent_step)

lemma consistent_one_call:
  assumes "consistent s"
  shows "one_at_a_time t None (journal s) \<and> length (sweep_calls t (outstanding s)) \<le> 1"
  using assms by (auto simp: consistent_def split: option.splits)

lemma generateAllVisuals_undisturbed:
  assumes "\<forall>kf \<in> set (keyframes (editableData (view s))).
             \<not> cached (generatedImages (view s)) (id_kf kf)"
      and "\<forall>kf \<in> set (keyframes (editableData (view s))).
             \<not> busy (loadingImages (view s)) (id_kf kf)"
      and "length os \<le> length (keyframes (editableData (view s)))"
  shows "issued_ids (journal (run (Click_generateAllVisuals
                                   # map (Settle (length (outstanding s))) os) s))
           = issued_ids (journal s)
             @ take (Suc (length os)) (map id_kf (keyframes (editableData (view s))))
       \<and> settled_ids (journal (run (Click_generateAllVisuals
                                     # map (Settle (length (outstanding s))) os) s))
           = settled_ids (journal s)
             @ take (length os) (map id_kf (keyframes (editableData (view s))))
       \<and> length (outstanding (run (Click_generateAllVisuals
                                     # map (Settle (length (outstanding s))) os) s))
           = length (outstanding s)
             + (if length os < length (keyframes (editableData (view s))) then 1 else 0)
       \<and> journal (run (Click_generateAllVisuals
                         # map (Settle (length (outstanding s))) os) s)
           = journal s
             @ sweep_journal (next_sweep s) (map id_kf (keyframes (editableData (view s))))
                 (length os)"
proof (cases "keyframes (editableData (view s))")
  case Nil
  then have "os = []" using assms(3) by simp
  then show ?thesis
    using Nil by (simp add: run_Cons run_Nil resume_sweep_fresh_Nil sweep_journal_def)
next
  case (Cons kf kfs)
  let ?cl = "render (view s)"
  let ?sw = "\<lparr>sweep_no = next_sweep s, sweep_closure = ?cl, sweep_rest = kf # kfs\<rparr>"
  let ?sw1 = "?sw\<lparr>sweep_rest := kfs\<rparr>"
  define s1 where "s1 = step Click_generateAllVisuals s"
  have fresh_kf: "\<not> cached (seen_generatedImages (sweep_closure ?sw)) (id_kf kf)"
                 "\<not> busy (seen_loadingImages (sweep_closure ?sw)) (id_kf kf)"
    using assms(1,2) Cons by (simp_all add: render_def)
  have "s1 = resume_sweep ?sw (s\<lparr>next_sweep := Suc (next_sweep s)\<rparr>)"
    unfolding s1_def using Cons by simp
  also have "\<dots> = (s\<lparr>next_sweep := Suc (next_sweep s)\<rparr>)
      \<lparr>view := (view (s\<lparr>next_sweep := Suc (next_sweep s)\<rparr>))
                 \<lparr>loadingImages := (loadingImages (view (s\<lparr>next_sweep := Suc (next_sweep s)\<rparr>)))
                                      (id_kf kf \<mapsto> True)\<rparr>,
       outstanding := outstanding (s\<lparr>next_sweep := Suc (next_sweep s)\<rparr>)
                       @ [(visual_call (sweep_closure ?sw) kf, Some ?sw1)],
       journal := journal (s\<lparr>next_sweep := Suc (next_sweep s)\<rparr>)
                   @ [Issued (Some (sweep_no ?sw)) (id_kf kf)]\<rparr>"
    by (rule resume_sweep_fresh_Cons[OF _ fresh_kf]) simp
  finally have s1: "s1 = (s\<lparr>next_sweep := Suc (next_sweep s)\<rparr>)
      \<lparr>view := (view (s\<lparr>next_sweep := Suc (next_sweep s)\<rparr>))
                 \<lparr>loadingImages := (loadingImages (view (s\<lparr>next_sweep := Suc (next_sweep s)\<rparr>)))
                                      (id_kf kf \<mapsto> True)\<rparr>,
       outstanding := outstanding (s\<lparr>next_sweep := Suc (next_sweep s)\<rparr>)
                       @ [(visual_call (sweep_closure ?sw) kf, Some ?sw1)],
       journal := journal (s\<lparr>next_sweep := Suc (next_sweep s)\<rparr>)
                   @ [Issued (Some (sweep_no ?sw)) (id_kf kf)]\<rparr>" .
  have out1: "outstanding s1 = outstanding s @ [(visual_call ?cl kf, Some ?sw1)]"
    unfolding s1 by simp
  have j1: "journal s1 = journal s @ [Issued (Some (next_sweep s)) (id_kf kf)]"
    unfolding s1 by simp
  have fresh1: "\<forall>kf \<in> set (sweep_rest ?sw1).
             \<not> cached (seen_generatedImages (sweep_closure ?sw1)) (id_kf kf)
           \<and> \<not> busy (seen_loadingImages (sweep_closure ?sw1)) (id_kf kf)"
    using assms(1,2) Cons by (simp add: render_def)
  have len1: "length os \<le> Suc (length (sweep_rest ?sw1))"
    using assms(3) Cons by simp
  have id1: "call_id (visual_call ?cl kf) = id_kf kf"
    by (simp add: visual_call_def)
  have r: "run (Click_generateAllVisuals # map (Settle (length (outstanding s))) os) s
             = run (map (Settle (length (outstanding s))) os) s1"
    by (simp add: run_Cons s1_def)
  have no1: "sweep_no ?sw1 = next_sweep s" "sweep_rest ?sw1 = kfs"
    by simp_all
  note run1 = sweep_run[OF out1 fresh1 len1, unfolded no1 id1]
  note run1_issued = run1[THEN conjunct1]
  note run1_settled = run1[THEN conjunct2, THEN conjunct1]
  note run1_outstanding = run1[THEN conjunct2, THEN conjunct2, THEN conjunct1]
  note run1_journal = run1[THEN conjunct2, THEN conjunct2, THEN conjunct2]
  have j: "journal (run (map (Settle (length (outstanding s))) os) s1)
             = journal s @ sweep_journal (next_sweep s) (id_kf kf # map id_kf kfs) (length os)"
  proof -
    have "journal (run (map (Settle (length (outstanding s))) os) s1)
            = journal s @ (Issued (Some (next_sweep s)) (id_kf kf)
                # tl (sweep_journal (next_sweep s) (id_kf kf # map id_kf kfs) (length os)))"
      using run1_journal by (simp add: j1)
    then show ?thesis
      by (simp only: sweep_journal_head)
  qed
  have c1: "issued_ids (journal (run (map (Settle (length (outstanding s))) os) s1))
              = issued_ids (journal s)
                @ take (Suc (length os)) (map id_kf (keyframes (editableData (view s))))"
    using run1_issued Cons by (simp add: j1 issued_ids_append)
  have c2: "settled_ids (journal (run (map (Settle (length (outstanding s))) os) s1))
              = settled_ids (journal s)
                @ take (length os) (map id_kf (keyframes (editableData (view s))))"
    using run1_settled Cons by (simp add: j1 settled_ids_append)
  have c3: "length (outstanding (run (map (Settle (length (outstanding s))) os) s1))
              = length (outstanding s)
                + (if length os < length (keyframes (editableData (view s))) then 1 else 0)"
    using run1_outstanding Cons by simp
  have c4: "journal (run (map (Settle (length (outstanding s))) os) s1)
              = journal s
                @ sweep_journal (next_sweep s) (map id_kf (keyframes (editableData (view s))))
                    (length os)"
    using j Cons by simp
  show ?thesis
    unfolding r using c1 c2 c3 c4 by blast
qed

text \<open>
  C3, amended. Take a viewer in which no keyframe of the storyboard has a cached
  image and no keyframe has its busy flag set, with \<open>N\<close> keyframes, and let
  nothing happen after the click on "generate all visuals" but the settlement, one
  after the other, of \<open>k \<le> N\<close> of the calls the action awaits (each resolved or
  failed). Then the calls issued are those for the first \<open>k + 1\<close> keyframes (all
  \<open>N\<close> when \<open>k = N\<close>), in order, the calls settled are those for the first
  \<open>k\<close>, exactly one call more than before the click is in flight as long as
  \<open>k < N\<close> and none when \<open>k = N\<close>, and the journal of the action is issue,
  settlement, issue, settlement and so on in the order of the keyframes: \<open>N\<close>
  calls in all. And in every session that any sequence of clicks on "generate
  visual", clicks on "generate all visuals" and settlements leads to from the
  mounted viewer, every "generate all visuals" has issued a call only when none
  of its calls was in flight, and has at most one call in flight.
\<close>

theorem generateAllVisuals_sequential:
  assumes "\<forall>kf \<in> set (keyframes (editableData (view s))).
             \<not> cached (generatedImages (view s)) (id_kf kf)"
      and "\<forall>kf \<in> set (keyframes (editableData (view s))).
             \<not> busy (loadingImages (view s)) (id_kf kf)"
      and "length os \<le> length (keyframes (editableData (view s)))"
  shows "issued_ids (journal (run (Click_generateAllVisuals
                                   # map (Settle (length (outstanding s))) os) s))
           = issued_ids (journal s)
             @ take (Suc (length os)) (map id_kf (keyframes (editableData (view s))))
       \<and> settled_ids (journal (run (Click_generateAllVisuals
                                     # map (Settle (length (outstanding s))) os) s))
           = settled_ids (journal s)
             @ take (length os) (map id_kf (keyframes (editableData (view s))))
       \<and> length (outstanding (run (Click_generateAllVisuals
                                     # map (Settle (length (outstanding s))) os) s))
           = length (outstanding s)
             + (if length os < length (keyframes (editableData (view s))) then 1 else 0)
       \<and> journal (run (Click_generateAllVisuals
                         # map (Settle (length (outstanding s))) os) s)
           = journal s
             @ sweep_journal (next_sweep s) (map id_kf (keyframes (editableData (view s))))
                 (length os)
       \<and> one_at_a_time t None (journal (run evs (mount d)))
       \<and> length (sweep_calls t (outstanding (run evs (mount d)))) \<le> 1"
proof -
  note undisturbed = generateAllVisuals_undisturbed[OF assms]
  have "consistent (run evs (mount d))"
    by (rule consistent_run[OF consistent_mount])
  then have every: "one_at_a_time t None (journal (run evs (mount d)))
                    \<and> length (sweep_calls t (outstanding (run evs (mount d)))) \<le> 1"
    by (rule consistent_one_call)
  show ?thesis
    using undisturbed every by (intro conjI) (elim conjE, assumption)+
qed

theorem generateAllVisuals_sequential_witness:
  "map id_kf (keyframes (editableData (view (mount example_storyboard)))) = [1, 2]
   \<and> \<not> cached (generatedImages (view (mount example_storyboard))) 1
   \<and> \<not> cached (generatedImages (view (mount example_storyboard))) 2
   \<and> \<not> busy (loadingImages (view (mount example_storyboard))) 1
   \<and> \<not> busy (loadingImages (view (mount example_storyboard))) 2
   \<and> length [Resolved ''data:image/png;base64,AAAA'', Failed]
       \<le> length (keyframes (editableData (view (mount example_storyboard))))
   \<and> issued_ids (journal (run [Click_generateAllVisuals,
          Settle 0 (Resolved ''data:image/png;base64,AAAA''), Settle 0 Failed]
          (mount example_storyboard))) = [1, 2]
   \<and> settled_ids (journal (run [Click_generateAllVisuals,
          Settle 0 (Resolved ''data:image/png;base64,AAAA''), Settle 0 Failed]
          (mount example_storyboard))) = [1, 2]
   \<and> length (outstanding (run [Click_generateAllVisuals,
          Settle 0 (Resolved ''data:image/png;base64,AAAA''), Settle 0 Failed]
          (mount example_storyboard))) = 0
   \<and> journal (run [Click_generateAllVisuals,
          Settle 0 (Resolved ''data:image/png;base64,AAAA''), Settle 0 Failed]
          (mount example_storyboard))
       = [Issued (Some 0) 1, Settled (Some 0) 1, Issued (Some 0) 2, Settled (Some 0) 2]
   \<and> length (sweep_calls 0 (outstanding (run [Click_generateAllVisuals,
          Click_generateVisual (example_keyframe 2 ''two''),
          Settle 0 (Resolved ''data:image/png;base64,AAAA'')]
          (mount example_storyboard)))) \<le> 1"
proof -
  have a: "\<forall>kf \<in> set (keyframes (editableData (view (mount example_storyboard)))).
       \<not> cached (generatedImages (view (mount example_storyboard))) (id_kf kf)"
    by (simp add: mount_def cached_def)
  have b: "\<forall>kf \<in> set (keyframes (editableData (view (mount example_storyboard)))).
       \<not> busy (loadingImages (view (mount example_storyboard))) (id_kf kf)"
    by (simp add: mount_def busy_def)
  have c: "length [Resolved ''data:image/png;base64,AAAA'', Failed]
       \<le> length (keyframes (editableData (view (mount example_storyboard))))"
    by (simp add: mount_def example_storyboard_def)
  have d: "outstanding (mount example_storyboard) = []" "journal (mount example_storyboard) = []"
    by (simp_all add: mount_def)
  have e: "map id_kf (keyframes (editableData (view (mount example_storyboard)))) = [1, 2]"
    by (simp add: mount_def example_storyboard_def example_keyframe_def)
  have n: "length (keyframes (editableData (view (mount example_storyboard)))) = 2"
    by (simp add: mount_def example_storyboard_def)
  have f: "\<not> cached (generatedImages (view (mount example_storyboard))) 1"
          "\<not> cached (generatedImages (view (mount example_storyboard))) 2"
          "\<not> busy (loadingImages (view (mount example_storyboard))) 1"
          "\<not> busy (loadingImages (view (mount example_storyboard))) 2"
    by (simp_all add: mount_def cached_def busy_def)
  have t: "next_sweep (mount example_storyboard) = 0"
    by (simp add: mount_def)
  note inst = generateAllVisuals_sequential[OF a b c, where t = 0 and d = example_storyboard
      and evs = "[Click_generateAllVisuals, Click_generateVisual (example_keyframe 2 ''two''),
                  Settle 0 (Resolved ''data:image/png;base64,AAAA'')]"]
  note undisturbed = inst[THEN conjunct1] inst[THEN conjunct2, THEN conjunct1]
      inst[THEN conjunct2, THEN conjunct2, THEN conjunct1]
      inst[THEN conjunct2, THEN conjunct2, THEN conjunct2, THEN conjunct1]
  note every = inst[THEN conjunct2, THEN conjunct2, THEN conjunct2, THEN conjunct2, THEN conjunct2]
  show ?thesis
    using undisturbed every f
    by (simp add: d e n t sweep_journal_def)
qed

text \<open>
  C3 as stated fails. The storyboard has two keyframes and nothing is cached; the
  user has clicked "generate visual" on keyframe 1, whose call is in flight. The
  click on "generate all visuals" then issues one call, for keyframe 2, not two:
  the journal shows the sweep (number 0) issuing and settling only that call.
\<close>

theorem generateAllVisuals_skips_busy_counterexample:
  "length (keyframes (editableData (view
      (run [Click_generateVisual (example_keyframe 1 ''one'')] (mount example_storyboard))))) = 2
   \<and> \<not> cached (generatedImages (view
      (run [Click_generateVisual (example_keyframe 1 ''one'')] (mount example_storyboard)))) 1
   \<and> \<not> cached (generatedImages (view
      (run [Click_generateVisual (example_keyframe 1 ''one'')] (mount example_storyboard)))) 2
   \<and> journal (run [Click_generateVisual (example_keyframe 1 ''one''), Click_generateAllVisuals,
                    Settle 0 (Resolved ''data:image/png;base64,AAAA''),
                    Settle 0 (Resolved ''data:image/png;base64,BBBB'')]
                (mount example_storyboard))
       = [Issued None 1, Issued (Some 0) 2, Settled None 1, Settled (Some 0) 2]
   \<and> outstanding (run [Click_generateVisual (example_keyframe 1 ''one''), Click_generateAllVisuals,
                    Settle 0 (Resolved ''data:image/png;base64,AAAA''),
                    Settle 0 (Resolved ''data:image/png;base64,BBBB'')]
                (mount example_storyboard)) = []"
  by (simp add: run_def mount_def example_storyboard_def example_keyframe_def
        generateVisual_begin_def generateVisual_end_def visual_call_def resume_sweep_def
        render_def cached_def busy_def Let_def)

text \<open>
  C4 at the failing scenario. The user clicks "generate all visuals" and, while the
  call for keyframe 1 is in flight, "generate visual" on keyframe 2: the busy flag
  of keyframe 2 is set and one call for it is in flight. When the call for keyframe
  1 settles, the sweep goes on with the flags of the render that started it and
  issues a second call for keyframe 2: two calls for the id 2 are in flight.
\<close>

theorem generateAllVisuals_duplicate_in_flight:
  "busy (loadingImages (view
      (run [Click_generateAllVisuals, Click_generateVisual (example_keyframe 2 ''two'')]
         (mount example_storyboard)))) 2
   \<and> in_flight (run [Click_generateAllVisuals, Click_generateVisual (example_keyframe 2 ''two'')]
         (mount example_storyboard)) 2 = 1
   \<and> journal (run [Click_generateAllVisuals, Click_generateVisual (example_keyframe 2 ''two''),
                    Settle 0 (Resolved ''data:image/png;base64,AAAA'')]
                (mount example_storyboard))
       = [Issued (Some 0) 1, Issued None 2, Settled (Some 0) 1, Issued (Some 0) 2]
   \<and> in_flight (run [Click_generateAllVisuals, Click_generateVisual (example_keyframe 2 ''two''),
                      Settle 0 (Resolved ''data:image/png;base64,AAAA'')]
                  (mount example_storyboard)) 2 = 2"
  by (simp add: run_def mount_def example_storyboard_def example_keyframe_def
        generateVisual_begin_def generateVisual_end_def visual_call_def resume_sweep_def
        render_def cached_def busy_def in_flight_def Let_def)

end
